theory Spec2Isabelle
  imports Complex_Main "HOL-Library.Char_ord" "HOL-Library.List_Lexorder" "HOL-Library.Multiset"
begin

section \<open>JavaScript values\<close>

text \<open>
  The chart components are TypeScript/React code over \<open>data: any[]\<close>. The language
  primitives they call (\<open>Number\<close>, \<open>parseFloat\<close>, \<open>String\<close>, \<open>trim\<close>, truthiness,
  \<open>Array.prototype.sort\<close>, own-property order of objects) are modelled here after
  ECMAScript. Two abstractions are made throughout:
  \<^item> a Number is \<open>NaN\<close>, an infinity or an exact rational; IEEE rounding, overflow to
    infinity and the sign of zero are not modelled;
  \<^item> a string is a list of 8-bit characters, so only the ASCII white space characters are
    trimmed and only ASCII letters change case.
\<close>

datatype jsnum = NaN | PInf | NInf | Fin rat

datatype jsval = Undefined | Null | Bool bool | Num jsnum | Str string

fun isNaN :: "jsnum \<Rightarrow> bool" where
  "isNaN NaN = True"
| "isNaN _ = False"

fun jsNeg :: "jsnum \<Rightarrow> jsnum" where
  "jsNeg NaN = NaN"
| "jsNeg PInf = NInf"
| "jsNeg NInf = PInf"
| "jsNeg (Fin a) = Fin (- a)"

fun jsAdd :: "jsnum \<Rightarrow> jsnum \<Rightarrow> jsnum" where
  "jsAdd NaN _ = NaN"
| "jsAdd _ NaN = NaN"
| "jsAdd PInf NInf = NaN"
| "jsAdd NInf PInf = NaN"
| "jsAdd PInf _ = PInf"
| "jsAdd _ PInf = PInf"
| "jsAdd NInf _ = NInf"
| "jsAdd _ NInf = NInf"
| "jsAdd (Fin a) (Fin b) = Fin (a + b)"

definition jsSub :: "jsnum \<Rightarrow> jsnum \<Rightarrow> jsnum" where
  "jsSub a b = jsAdd a (jsNeg b)"

fun jsSign :: "jsnum \<Rightarrow> int" where
  "jsSign NaN = 0"
| "jsSign PInf = 1"
| "jsSign NInf = - 1"
| "jsSign (Fin a) = (if a < 0 then - 1 else if a = 0 then 0 else 1)"

definition signedInf :: "int \<Rightarrow> jsnum" where
  "signedInf s = (if s < 0 then NInf else if s = 0 then NaN else PInf)"

fun jsMul :: "jsnum \<Rightarrow> jsnum \<Rightarrow> jsnum" where
  "jsMul NaN _ = NaN"
| "jsMul _ NaN = NaN"
| "jsMul (Fin a) (Fin b) = Fin (a * b)"
| "jsMul a b = signedInf (jsSign a * jsSign b)"

fun jsDiv :: "jsnum \<Rightarrow> jsnum \<Rightarrow> jsnum" where
  "jsDiv NaN _ = NaN"
| "jsDiv _ NaN = NaN"
| "jsDiv (Fin a) (Fin b) = (if b = 0 then signedInf (jsSign (Fin a)) else Fin (a / b))"
| "jsDiv (Fin a) _ = Fin 0"
| "jsDiv a (Fin b) = signedInf (jsSign a * (if b < 0 then - 1 else 1))"
| "jsDiv _ _ = NaN"

fun jsLt :: "jsnum \<Rightarrow> jsnum \<Rightarrow> bool" where
  "jsLt NaN _ = False"
| "jsLt _ NaN = False"
| "jsLt _ NInf = False"
| "jsLt NInf _ = True"
| "jsLt PInf _ = False"
| "jsLt _ PInf = True"
| "jsLt (Fin a) (Fin b) = (a < b)"

definition jsGt :: "jsnum \<Rightarrow> jsnum \<Rightarrow> bool" where
  "jsGt a b = jsLt b a"

definition jsGe :: "jsnum \<Rightarrow> jsnum \<Rightarrow> bool" where
  "jsGe a b = (\<not> isNaN a \<and> \<not> isNaN b \<and> \<not> jsLt a b)"

definition jsLe :: "jsnum \<Rightarrow> jsnum \<Rightarrow> bool" where
  "jsLe a b = jsGe b a"

definition ofNat :: "nat \<Rightarrow> jsnum" where
  "ofNat n = Fin (of_nat n)"

subsection \<open>Strings\<close>

definition isWhiteSpace :: "char \<Rightarrow> bool" where
  "isWhiteSpace c = (c \<in> set [CHR 0x09, CHR 0x0A, CHR 0x0B, CHR 0x0C, CHR 0x0D, CHR '' ''])"

definition trimStart :: "string \<Rightarrow> string" where
  "trimStart s = dropWhile isWhiteSpace s"

definition trim :: "string \<Rightarrow> string" where
  "trim s = rev (dropWhile isWhiteSpace (rev (dropWhile isWhiteSpace s)))"

definition isDigit :: "char \<Rightarrow> bool" where
  "isDigit c = (c \<in> set ''0123456789'')"

definition digitVal :: "char \<Rightarrow> int" where
  "digitVal c = of_char c - 48"

definition digitChar :: "nat \<Rightarrow> char" where
  "digitChar d = char_of (48 + d)"

definition digitsVal :: "string \<Rightarrow> int" where
  "digitsVal ds = foldl (\<lambda>a c. 10 * a + digitVal c) 0 ds"

fun startsWith :: "string \<Rightarrow> string \<Rightarrow> bool" where
  "startsWith _ [] = True"
| "startsWith [] (_ # _) = False"
| "startsWith (c # s) (p # ps) = (c = p \<and> startsWith s ps)"

fun includesStr :: "string \<Rightarrow> string \<Rightarrow> bool" where
  "includesStr [] p = (p = [])"
| "includesStr (c # s) p = (startsWith (c # s) p \<or> includesStr s p)"

definition lowerChar :: "char \<Rightarrow> char" where
  "lowerChar c = (if CHR ''A'' \<le> c \<and> c \<le> CHR ''Z'' then char_of (of_char c + (32::nat)) else c)"

definition toLowerCase :: "string \<Rightarrow> string" where
  "toLowerCase s = map lowerChar s"

subsection \<open>Number to string\<close>

fun natDigits :: "nat \<Rightarrow> string" where
  "natDigits n = (if n < 10 then [digitChar n] else natDigits (n div 10) @ [digitChar (n mod 10)])"

declare natDigits.simps [simp del]

fun decimalPlaces :: "nat \<Rightarrow> rat \<Rightarrow> nat" where
  "decimalPlaces 0 q = 0"
| "decimalPlaces (Suc f) q = (if of_int \<lfloor>q\<rfloor> = q then 0 else Suc (decimalPlaces f (q * 10)))"

fun trailingZeros :: "nat \<Rightarrow> nat" where
  "trailingZeros n = (if n = 0 \<or> n mod 10 \<noteq> 0 then 0 else Suc (trailingZeros (n div 10)))"

declare trailingZeros.simps [simp del]

text \<open>
  \<open>Number::toString\<close> of a positive finite value (ECMAScript 6.1.6.1.20, radix 10):
  with \<open>s\<close> the digits without trailing zeros, \<open>k\<close> their count and \<open>s * 10^(n-k)\<close> the
  value. A Number has a terminating decimal expansion of at most 1074 places; beyond that
  bound the expansion is cut.
\<close>

definition posToString :: "rat \<Rightarrow> string" where
  "posToString q =
     (let d = decimalPlaces 1100 q;
          N = nat \<lfloor>q * 10 ^ d\<rfloor>;
          z = trailingZeros N;
          ds = natDigits (N div 10 ^ z);
          k = int (length ds);
          n = k + int z - int d
      in if k \<le> n \<and> n \<le> 21 then ds @ replicate (nat (n - k)) CHR ''0''
         else if 0 < n \<and> n \<le> 21 then take (nat n) ds @ ''.'' @ drop (nat n) ds
         else if - 6 < n \<and> n \<le> 0 then ''0.'' @ replicate (nat (- n)) CHR ''0'' @ ds
         else (let e = n - 1;
                   es = (if e < 0 then ''-'' else ''+'') @ natDigits (nat \<bar>e\<bar>)
               in if k = 1 then ds @ ''e'' @ es
                  else take 1 ds @ ''.'' @ drop 1 ds @ ''e'' @ es))"

fun numToString :: "jsnum \<Rightarrow> string" where
  "numToString NaN = ''NaN''"
| "numToString PInf = ''Infinity''"
| "numToString NInf = ''-Infinity''"
| "numToString (Fin q) =
     (if q = 0 then ''0'' else if q < 0 then ''-'' @ posToString (- q) else posToString q)"

text \<open>\<open>String(v)\<close>.\<close>

fun toString :: "jsval \<Rightarrow> string" where
  "toString Undefined = ''undefined''"
| "toString Null = ''null''"
| "toString (Bool b) = (if b then ''true'' else ''false'')"
| "toString (Num n) = numToString n"
| "toString (Str s) = s"

text \<open>Truthiness, as tested by \<open>||\<close>, \<open>&&\<close> and \<open>!\<close>.\<close>

fun truthy :: "jsval \<Rightarrow> bool" where
  "truthy Undefined = False"
| "truthy Null = False"
| "truthy (Bool b) = b"
| "truthy (Num n) = (n \<noteq> NaN \<and> n \<noteq> Fin 0)"
| "truthy (Str s) = (s \<noteq> [])"

subsection \<open>String to number\<close>

definition pow10 :: "int \<Rightarrow> rat" where
  "pow10 e = (if 0 \<le> e then 10 ^ nat e else 1 / 10 ^ nat (- e))"

text \<open>The exponent part \<open>e[+-]digits\<close>, if one starts the string; its value and the rest.\<close>

definition parseExponent :: "string \<Rightarrow> int \<times> string" where
  "parseExponent s =
     (case s of
        [] \<Rightarrow> (0, s)
      | c # t \<Rightarrow>
          if c = CHR ''e'' \<or> c = CHR ''E'' then
            (let (sgn, u) = (case t of
                               [] \<Rightarrow> (1, t)
                             | x # v \<Rightarrow> if x = CHR ''+'' then (1, v)
                                        else if x = CHR ''-'' then (- 1, v) else (1, t));
                 ds = takeWhile isDigit u
             in if ds = [] then (0, s) else (sgn * digitsVal ds, dropWhile isDigit u))
          else (0, s))"

text \<open>The longest prefix that is a \<open>StrUnsignedDecimalLiteral\<close>; its value and the rest.\<close>

definition parseUnsignedDecimal :: "string \<Rightarrow> (jsnum \<times> string) option" where
  "parseUnsignedDecimal s =
     (if startsWith s ''Infinity'' then Some (PInf, drop 8 s)
      else
        (let ip = takeWhile isDigit s;
             r1 = dropWhile isDigit s;
             (fp, r2) = (case r1 of
                           [] \<Rightarrow> ([], r1)
                         | c # t \<Rightarrow> if c = CHR ''.''
                                    then (takeWhile isDigit t, dropWhile isDigit t)
                                    else ([], r1))
         in if ip = [] \<and> fp = [] then None
            else (let (e, r3) = parseExponent r2
                  in Some (Fin (of_int (digitsVal (ip @ fp)) / 10 ^ length fp * pow10 e), r3))))"

text \<open>The longest prefix that is a \<open>StrDecimalLiteral\<close> (an optional sign first).\<close>

definition parseDecimal :: "string \<Rightarrow> (jsnum \<times> string) option" where
  "parseDecimal s =
     (case s of
        [] \<Rightarrow> None
      | c # t \<Rightarrow>
          if c = CHR ''+'' then parseUnsignedDecimal t
          else if c = CHR ''-'' then map_option (\<lambda>(v, r). (jsNeg v, r)) (parseUnsignedDecimal t)
          else parseUnsignedDecimal s)"

text \<open>\<open>Number.parseFloat(s)\<close>.\<close>

definition parseFloat :: "string \<Rightarrow> jsnum" where
  "parseFloat s = (case parseDecimal (trimStart s) of None \<Rightarrow> NaN | Some (v, _) \<Rightarrow> v)"

definition radixDigit :: "char \<Rightarrow> int option" where
  "radixDigit c =
     (if isDigit c then Some (digitVal c)
      else if c \<in> set ''abcdef'' then Some (of_char c - 87)
      else if c \<in> set ''ABCDEF'' then Some (of_char c - 55)
      else None)"

text \<open>A \<open>NonDecimalIntegerLiteral\<close> body: at least one digit, each below the radix.\<close>

definition parseRadix :: "int \<Rightarrow> string \<Rightarrow> jsnum" where
  "parseRadix b ds =
     (if ds \<noteq> [] \<and> list_all (\<lambda>c. case radixDigit c of None \<Rightarrow> False | Some d \<Rightarrow> d < b) ds
      then Fin (of_int (foldl (\<lambda>a c. b * a + the (radixDigit c)) 0 ds))
      else NaN)"

text \<open>\<open>Number(s)\<close> on a string (\<open>StringToNumber\<close>).\<close>

definition strToNumber :: "string \<Rightarrow> jsnum" where
  "strToNumber s =
     (let t = trim s
      in if t = [] then Fin 0
         else if startsWith t ''0x'' \<or> startsWith t ''0X'' then parseRadix 16 (drop 2 t)
         else if startsWith t ''0o'' \<or> startsWith t ''0O'' then parseRadix 8 (drop 2 t)
         else if startsWith t ''0b'' \<or> startsWith t ''0B'' then parseRadix 2 (drop 2 t)
         else (case parseDecimal t of
                 Some (v, []) \<Rightarrow> v
               | _ \<Rightarrow> NaN))"

text \<open>\<open>Number(v)\<close>.\<close>

fun toNumber :: "jsval \<Rightarrow> jsnum" where
  "toNumber Undefined = NaN"
| "toNumber Null = Fin 0"
| "toNumber (Bool b) = (if b then Fin 1 else Fin 0)"
| "toNumber (Num n) = n"
| "toNumber (Str s) = strToNumber s"

section \<open>Value classifier (\<open>src/lib/utils.ts\<close>)\<close>

definition isNumeric :: "jsval \<Rightarrow> bool" where
  "isNumeric v =
     (if v = Null \<or> v = Undefined \<or> v = Str '''' then False
      else (let str = trim (toString v)
            in \<not> isNaN (strToNumber str) \<and> \<not> isNaN (parseFloat str)))"

section \<open>Rows, objects and arrays\<close>

text \<open>
  A row is read only through \<open>row[column]\<close>; it is modelled by that read, which gives
  \<open>undefined\<close> for a column the row does not have. The value read is a primitive: the
  read of a missing cell whose column is named like a member that every object inherits
  (\<open>constructor\<close>, \<open>toString\<close>, ...) finds that member, a function, and is not
  covered. A column name stands for the property key it is used as, so an unset selection
  (\<open>undefined\<close>) is the key "undefined".
\<close>

type_synonym row = "string \<Rightarrow> jsval"

text \<open>An object used as a dictionary: its own properties in creation order.\<close>

type_synonym 'v jsobj = "(string \<times> 'v) list"

text \<open>\<open>o[k] = v\<close> on an own data property or a fresh key.\<close>

definition objSet :: "'v jsobj \<Rightarrow> string \<Rightarrow> 'v \<Rightarrow> 'v jsobj" where
  "objSet obj k v =
     (if map_of obj k = None then obj @ [(k, v)]
      else map (\<lambda>(k', v'). if k' = k then (k', v) else (k', v')) obj)"

definition objGet :: "jsval jsobj \<Rightarrow> string \<Rightarrow> jsval" where
  "objGet obj k = (case map_of obj k of None \<Rightarrow> Undefined | Some v \<Rightarrow> v)"

text \<open>
  The accumulators start as \<open>{}\<close>, whose prototype is \<open>Object.prototype\<close>: a read of one
  of these names that is not an own property finds the inherited member, an object or
  function, which is truthy.
\<close>

definition objectPrototypeKeys :: "string list" where
  "objectPrototypeKeys =
     [''constructor'', ''__defineGetter__'', ''__defineSetter__'', ''hasOwnProperty'',
      ''__lookupGetter__'', ''__lookupSetter__'', ''isPrototypeOf'', ''propertyIsEnumerable'',
      ''toString'', ''valueOf'', ''__proto__'', ''toLocaleString'']"

datatype 'v lookup = Own 'v | Inherited | Absent

definition accGet :: "'v jsobj \<Rightarrow> string \<Rightarrow> 'v lookup" where
  "accGet acc k =
     (case map_of acc k of
        Some g \<Rightarrow> Own g
      | None \<Rightarrow> if k \<in> set objectPrototypeKeys then Inherited else Absent)"

text \<open>
  An array index is a canonical numeric string below \<open>2^32 - 1\<close>. The own keys of an
  ordinary object are listed with the array indices first, in ascending numeric order,
  and the other strings after them in creation order; \<open>Object.values\<close> follows that order.
\<close>

definition isArrayIndex :: "string \<Rightarrow> bool" where
  "isArrayIndex k =
     (k \<noteq> [] \<and> list_all isDigit k \<and> (k = ''0'' \<or> hd k \<noteq> CHR ''0'')
      \<and> digitsVal k < 4294967295)"

definition ownKeyOrder :: "'v jsobj \<Rightarrow> 'v jsobj" where
  "ownKeyOrder obj =
     sort_key (\<lambda>(k, v). digitsVal k) (filter (\<lambda>(k, v). isArrayIndex k) obj)
     @ filter (\<lambda>(k, v). \<not> isArrayIndex k) obj"

definition objectValues :: "'v jsobj \<Rightarrow> 'v list" where
  "objectValues obj = map snd (ownKeyOrder obj)"

text \<open>The binary \<open>+\<close> on primitives: concatenation if either side is a string.\<close>

fun jsPlus :: "jsval \<Rightarrow> jsval \<Rightarrow> jsval" where
  "jsPlus (Str s) b = Str (s @ toString b)"
| "jsPlus a (Str t) = Str (toString a @ t)"
| "jsPlus a b = Num (jsAdd (toNumber a) (toNumber b))"

text \<open>
  \<open>Array.prototype.sort(comparefn)\<close>. The sorting algorithm sees the comparator through
  \<open>SortCompare\<close>, which gives 0 for a result of \<open>NaN\<close>. When these results are consistent
  on the elements (comparing equal is an equivalence, and comparing below and above
  order its classes), the result is the same in every engine: the elements in ascending
  order, those that compare equal in their original order. When they are not, the order
  is left to the engine. The engine is an input of the model, \<open>engine\<close>: it is given the
  table of all comparison results and answers with the order of the indices. An engine
  answers with a permutation of the indices; an answer that is none leaves the array as
  it is.

  ECMAScript calls a comparator that can return \<open>NaN\<close> inconsistent whatever
  \<open>SortCompare\<close> makes of it; the consistency asked here is that of the results after
  \<open>SortCompare\<close>, which are all that an algorithm computes with.
\<close>

definition sortCompare :: "('a \<Rightarrow> 'a \<Rightarrow> jsnum) \<Rightarrow> 'a \<Rightarrow> 'a \<Rightarrow> jsnum" where
  "sortCompare cmp x y = (let v = cmp x y in if isNaN v then Fin 0 else v)"

definition compareSign :: "('a \<Rightarrow> 'a \<Rightarrow> jsnum) \<Rightarrow> 'a \<Rightarrow> 'a \<Rightarrow> int" where
  "compareSign cmp a b = jsSign (sortCompare cmp a b)"

definition consistentComparator :: "('a \<Rightarrow> 'a \<Rightarrow> jsnum) \<Rightarrow> 'a list \<Rightarrow> bool" where
  "consistentComparator cmp xs =
     list_all (\<lambda>a. compareSign cmp a a = 0 \<and>
        list_all (\<lambda>b. (if compareSign cmp a b = 0 then compareSign cmp b a = 0 else True) \<and>
           list_all (\<lambda>c. if compareSign cmp a b = compareSign cmp b c
                         then compareSign cmp a c = compareSign cmp a b else True) xs) xs) xs"

text \<open>The sorted order for a consistent comparator, by a stable insertion sort.\<close>

fun sortInsert :: "('a \<Rightarrow> 'a \<Rightarrow> jsnum) \<Rightarrow> 'a \<Rightarrow> 'a list \<Rightarrow> 'a list" where
  "sortInsert cmp x [] = [x]"
| "sortInsert cmp x (y # ys) =
     (if jsGt (sortCompare cmp x y) (Fin 0) then y # sortInsert cmp x ys else x # y # ys)"

fun stableSort :: "('a \<Rightarrow> 'a \<Rightarrow> jsnum) \<Rightarrow> 'a list \<Rightarrow> 'a list" where
  "stableSort cmp [] = []"
| "stableSort cmp (x # xs) = sortInsert cmp x (stableSort cmp xs)"

type_synonym engine = "jsnum list list \<Rightarrow> nat list"

definition comparisons :: "('a \<Rightarrow> 'a \<Rightarrow> jsnum) \<Rightarrow> 'a list \<Rightarrow> jsnum list list" where
  "comparisons cmp xs = map (\<lambda>a. map (\<lambda>b. sortCompare cmp a b) xs) xs"

definition arraySort :: "engine \<Rightarrow> ('a \<Rightarrow> 'a \<Rightarrow> jsnum) \<Rightarrow> 'a list \<Rightarrow> 'a list" where
  "arraySort engine cmp xs =
     (if consistentComparator cmp xs then stableSort cmp xs
      else (let order = engine (comparisons cmp xs)
            in if sort order = [0..<length xs] then map (\<lambda>i. xs ! i) order else xs))"

section \<open>Bar chart (\<open>BarChartView\<close>, \<open>src/unnamed/part_001\<close>)\<close>

text \<open>The key of a row's group: \<open>String(row[xAxis] || "Unknown")\<close>.\<close>

definition groupKey :: "jsval \<Rightarrow> string" where
  "groupKey v = toString (if truthy v then v else Str ''Unknown'')"

text \<open>The object literal \<open>{ [xAxis]: xValue, [yAxis]: 0, count: 0 }\<close>.\<close>

definition barGroup :: "string \<Rightarrow> string \<Rightarrow> string \<Rightarrow> jsval jsobj" where
  "barGroup xAxis yAxis xValue =
     objSet (objSet (objSet [] xAxis (Str xValue)) yAxis (Num (Fin 0))) ''count'' (Num (Fin 0))"

text \<open>
  The reducer can leave the accumulator. When \<open>acc[xValue]\<close> is an inherited member, no
  group is made, and on a numeric row \<open>acc[xValue][yAxis] += ...\<close> and
  \<open>acc[xValue].count += 1\<close> are assignments to properties of that built-in object:
  \<open>Object.prototype\<close> itself for \<open>__proto__\<close>, a function for every other name. The
  built-in objects are shared, so these assignments are state. The model keeps the list
  of them, \<open>written\<close>, as pairs of the member and the property assigned, and starts from
  a realm in which nothing has been assigned yet. An assignment to the property
  \<open>__proto__\<close> goes to its setter, which ignores a primitive, and is not listed.
\<close>

type_synonym realm = "(string \<times> string) list"

datatype error = TypeError

definition assignBuiltin :: "realm \<Rightarrow> string \<Rightarrow> string \<Rightarrow> realm" where
  "assignBuiltin written member property =
     (if property = ''__proto__'' then written else written @ [(member, property)])"

text \<open>
  The components are modules, so the code is strict, and the update throws a \<open>TypeError\<close>
  \<^item> when an earlier assignment has replaced the method \<open>Object.prototype[xValue]\<close> by a
    string: \<open>acc[xValue]\<close> is then a primitive, which takes no property;
  \<^item> on a function member when the property is \<open>name\<close> or \<open>length\<close>, which are
    read-only, \<open>caller\<close> or \<open>arguments\<close>, whose accessors throw, or \<open>prototype\<close> of
    \<open>constructor\<close>;
  \<^item> when the value read is a method of \<open>Object.prototype\<close> that has been given a string
    for its own \<open>toString\<close>: \<open>+=\<close> cannot convert that method to a primitive.
  A function member finds \<open>constructor\<close> and \<open>toString\<close> on \<open>Function.prototype\<close>, before
  \<open>Object.prototype\<close>. Every other update assigns a string or \<open>NaN\<close> to the property, and
  \<open>NaN\<close> to \<open>count\<close>.
\<close>

definition readOnlyMember :: "string \<Rightarrow> string \<Rightarrow> bool" where
  "readOnlyMember member property =
     (member \<noteq> ''__proto__''
      \<and> (property \<in> set [''name'', ''length'', ''caller'', ''arguments'']
           \<or> (member = ''constructor'' \<and> property = ''prototype'')))"

definition readsMethod :: "realm \<Rightarrow> string \<Rightarrow> string \<Rightarrow> bool" where
  "readsMethod written member property =
     (property \<in> set objectPrototypeKeys \<and> property \<noteq> ''__proto__''
      \<and> (member, property) \<notin> set written \<and> (''__proto__'', property) \<notin> set written
      \<and> (member = ''__proto__'' \<or> property \<notin> set [''constructor'', ''toString'']))"

definition builtinUpdate :: "realm \<Rightarrow> string \<Rightarrow> string \<Rightarrow> error + realm" where
  "builtinUpdate written member property =
     (if (''__proto__'', member) \<in> set written then Inl TypeError
      else if readOnlyMember member property then Inl TypeError
      else if readsMethod written member property \<and> (property, ''toString'') \<in> set written
      then Inl TypeError
      else Inr (assignBuiltin (assignBuiltin written member property) member ''count''))"

definition barStep ::
  "string \<Rightarrow> string \<Rightarrow> realm \<times> jsval jsobj jsobj \<Rightarrow> row \<Rightarrow> error + realm \<times> jsval jsobj jsobj"
  where
  "barStep xAxis yAxis state row =
     (let written = fst state;
          acc = snd state;
          xValue = groupKey (row xAxis);
          acc1 = (if accGet acc xValue = Absent
                  then objSet acc xValue (barGroup xAxis yAxis xValue) else acc)
      in if isNumeric (row yAxis) then
           (case accGet acc1 xValue of
              Own g \<Rightarrow>
                (let g1 = objSet g yAxis (jsPlus (objGet g yAxis) (Num (toNumber (row yAxis))));
                     g2 = objSet g1 ''count'' (jsPlus (objGet g1 ''count'') (Num (Fin 1)))
                 in Inr (written, objSet acc1 xValue g2))
            | Inherited \<Rightarrow>
                (case builtinUpdate written xValue yAxis of
                   Inl e \<Rightarrow> Inl e
                 | Inr written1 \<Rightarrow> Inr (written1, acc1))
            | Absent \<Rightarrow> Inr (written, acc1))
         else Inr (written, acc1))"

text \<open>\<open>array.reduce(f, init)\<close> for a reducer that can throw: the first throw ends it.\<close>

fun reduceE :: "('a \<Rightarrow> 'b \<Rightarrow> error + 'a) \<Rightarrow> 'a \<Rightarrow> 'b list \<Rightarrow> error + 'a" where
  "reduceE f acc [] = Inr acc"
| "reduceE f acc (x # xs) = (case f acc x of Inl e \<Rightarrow> Inl e | Inr acc' \<Rightarrow> reduceE f acc' xs)"

definition barReduce ::
  "row list \<Rightarrow> string \<Rightarrow> string \<Rightarrow> error + realm \<times> jsval jsobj jsobj" where
  "barReduce data xAxis yAxis = reduceE (barStep xAxis yAxis) ([], []) data"

definition barGroupedData :: "row list \<Rightarrow> string \<Rightarrow> string \<Rightarrow> error + jsval jsobj jsobj" where
  "barGroupedData data xAxis yAxis = map_sum id snd (barReduce data xAxis yAxis)"

definition barWritten :: "row list \<Rightarrow> string \<Rightarrow> string \<Rightarrow> error + realm" where
  "barWritten data xAxis yAxis = map_sum id fst (barReduce data xAxis yAxis)"

text \<open>
  \<open>Math.random()\<close> is an input of the model: \<open>rnd i\<close> is the result of its \<open>i\<close>-th call,
  a number in \<open>[0, 1)\<close>. The \<open>map\<close> calls it once for every group, before the \<open>slice\<close>.
\<close>

definition barFill :: "rat \<Rightarrow> string" where
  "barFill r = ''hsl(var(--chart-'' @ numToString (Fin (of_int \<lfloor>r * 5\<rfloor> + 1)) @ ''))''"

definition barItem :: "string \<Rightarrow> string \<Rightarrow> rat \<Rightarrow> jsval jsobj \<Rightarrow> jsval jsobj" where
  "barItem xAxis yAxis r item =
     objSet (objSet (objSet [] xAxis (objGet item xAxis)) yAxis (objGet item yAxis))
       ''fill'' (Str (barFill r))"

definition barItems ::
  "(nat \<Rightarrow> rat) \<Rightarrow> string \<Rightarrow> string \<Rightarrow> jsval jsobj jsobj \<Rightarrow> jsval jsobj list" where
  "barItems rnd xAxis yAxis groupedData =
     take 20 (map (\<lambda>(i, item). barItem xAxis yAxis (rnd i) item)
                (enumerate 0 (objectValues groupedData)))"

text \<open>
  \<open>Object.values(groupedData)\<close> calls what \<open>Object.values\<close> holds, which is a string, and
  the call a \<open>TypeError\<close>, once the reducer has assigned to the property \<open>values\<close> of
  the member \<open>constructor\<close>.
\<close>

definition barChartData ::
  "(nat \<Rightarrow> rat) \<Rightarrow> row list \<Rightarrow> string \<Rightarrow> string \<Rightarrow> error + jsval jsobj list" where
  "barChartData rnd data xAxis yAxis =
     (case barReduce data xAxis yAxis of
        Inl e \<Rightarrow> Inl e
      | Inr (written, groupedData) \<Rightarrow>
          if (''constructor'', ''values'') \<in> set written then Inl TypeError
          else Inr (barItems rnd xAxis yAxis groupedData))"

section \<open>Pie chart (\<open>PieChartView\<close>, second part of \<open>src/components/data-table.tsx\<close>)\<close>

record pieItem =
  itemName :: string
  itemValue :: jsnum

record pieState =
  labelColumn :: string
  valueColumn :: string
  pieStateColumn :: string
  pieSelectedState :: string
  groupByState :: bool

text \<open>
  One call of the reducer. When \<open>acc[label]\<close> is an inherited member no group is made and
  \<open>acc[label].value += ...\<close> adds a property \<open>value\<close> to that built-in object, which
  neither throws nor is seen by a read of the reducer: the accumulator is unchanged.
\<close>

definition pieStep :: "string \<Rightarrow> string \<Rightarrow> pieItem jsobj \<Rightarrow> row \<Rightarrow> pieItem jsobj" where
  "pieStep actualLabelColumn valueCol acc row =
     (let label = groupKey (row actualLabelColumn);
          acc1 = (if accGet acc label = Absent
                  then objSet acc label \<lparr>itemName = label, itemValue = Fin 0\<rparr> else acc)
      in if isNumeric (row valueCol) then
           (case accGet acc1 label of
              Own g \<Rightarrow>
                objSet acc1 label (g\<lparr>itemValue := jsAdd (itemValue g) (toNumber (row valueCol))\<rparr>)
            | _ \<Rightarrow> acc1)
         else acc1)"

definition pieFilteredData :: "pieState \<Rightarrow> row list \<Rightarrow> row list" where
  "pieFilteredData st data =
     (if pieStateColumn st \<noteq> [] \<and> \<not> groupByState st \<and> pieSelectedState st \<noteq> []
      then filter (\<lambda>row. toString (row (pieStateColumn st)) = pieSelectedState st) data
      else data)"

definition pieGroupedData :: "pieState \<Rightarrow> row list \<Rightarrow> pieItem jsobj" where
  "pieGroupedData st data =
     (let actualLabelColumn = (if groupByState st \<and> pieStateColumn st \<noteq> []
                               then pieStateColumn st else labelColumn st)
      in foldl (pieStep actualLabelColumn (valueColumn st)) [] (pieFilteredData st data))"

text \<open>
  The assignments of the reducer that land on a built-in object: one for every numeric
  row whose label names an inherited member (such a label never becomes a key of the
  accumulator).
\<close>

definition pieWritten :: "pieState \<Rightarrow> row list \<Rightarrow> realm" where
  "pieWritten st data =
     (let actualLabelColumn = (if groupByState st \<and> pieStateColumn st \<noteq> []
                               then pieStateColumn st else labelColumn st)
      in map (\<lambda>row. (groupKey (row actualLabelColumn), ''value''))
           (filter (\<lambda>row. isNumeric (row (valueColumn st))
                           \<and> groupKey (row actualLabelColumn) \<in> set objectPrototypeKeys)
              (pieFilteredData st data)))"

definition pieChartData :: "engine \<Rightarrow> pieState \<Rightarrow> row list \<Rightarrow> pieItem list" where
  "pieChartData engine st data =
     take 12
       (arraySort engine (\<lambda>a b. jsSub (itemValue b) (itemValue a))
          (filter (\<lambda>item. jsGt (itemValue item) (Fin 0))
             (objectValues (pieGroupedData st data))))"

definition COLORS :: "string list" where
  "COLORS =
     [''hsl(var(--chart-1))'', ''hsl(var(--chart-2))'', ''hsl(var(--chart-3))'',
      ''hsl(var(--chart-4))'', ''hsl(var(--chart-5))'', ''hsl(var(--chart-6, var(--chart-1)))'',
      ''hsl(var(--chart-7, var(--chart-2)))'', ''hsl(var(--chart-8, var(--chart-3)))'']"

record configEntry =
  label :: string
  color :: string

definition pieChartConfig :: "pieItem list \<Rightarrow> configEntry jsobj" where
  "pieChartConfig chartData =
     foldl (\<lambda>config (index, item).
              objSet config (itemName item)
                \<lparr>label = itemName item, color = COLORS ! (index mod length COLORS)\<rparr>)
       [] (enumerate 0 chartData)"

text \<open>A row given by its cells, for concrete datasets.\<close>

definition mkRow :: "(string \<times> jsval) list \<Rightarrow> row" where
  "mkRow cells = (\<lambda>column. case map_of cells column of None \<Rightarrow> Undefined | Some v \<Rightarrow> v)"

section \<open>Grouping, as a specification\<close>

text \<open>
  The two reducers have one shape: find or make the group of the row's key, then update
  it if the row's value is numeric. \<open>groupStep\<close> is that shape, and the functions after
  it describe the result of folding it: the keys in first-seen order, the order in which
  \<open>Object.values\<close> lists them, and the sum of a group.
\<close>

definition groupStep ::
  "(row \<Rightarrow> string) \<Rightarrow> (string \<Rightarrow> 'v) \<Rightarrow> (row \<Rightarrow> bool) \<Rightarrow> (row \<Rightarrow> 'v \<Rightarrow> 'v) \<Rightarrow> 'v jsobj \<Rightarrow> row \<Rightarrow> 'v jsobj"
  where
  "groupStep keyOf newGroup numeric upd acc row =
     (let k = keyOf row;
          acc1 = (if accGet acc k = Absent then objSet acc k (newGroup k) else acc)
      in if numeric row then
           (case accGet acc1 k of
              Own g \<Rightarrow> objSet acc1 k (upd row g)
            | _ \<Rightarrow> acc1)
         else acc1)"

definition firstSeen :: "'a list \<Rightarrow> 'a list" where
  "firstSeen xs = foldl (\<lambda>acc x. if x \<in> set acc then acc else acc @ [x]) [] xs"

definition groupKeys :: "(row \<Rightarrow> string) \<Rightarrow> row list \<Rightarrow> string list" where
  "groupKeys keyOf data =
     firstSeen (filter (\<lambda>k. k \<notin> set objectPrototypeKeys) (map keyOf data))"

definition keyOrder :: "string list \<Rightarrow> string list" where
  "keyOrder ks = sort_key digitsVal (filter isArrayIndex ks) @ filter (\<lambda>k. \<not> isArrayIndex k) ks"

definition rowKey :: "string \<Rightarrow> row \<Rightarrow> string" where
  "rowKey keyColumn row = groupKey (row keyColumn)"

definition groupRows :: "(row \<Rightarrow> string) \<Rightarrow> (row \<Rightarrow> bool) \<Rightarrow> row list \<Rightarrow> string \<Rightarrow> row list" where
  "groupRows keyOf numeric data k = filter (\<lambda>row. keyOf row = k \<and> numeric row) data"

text \<open>
  The sum of \<open>Number(row[valueColumn])\<close> over the rows of group \<open>k\<close> whose value passes
  \<open>isNumeric\<close>, added in row order from 0.
\<close>

definition groupSum :: "row list \<Rightarrow> string \<Rightarrow> string \<Rightarrow> string \<Rightarrow> jsnum" where
  "groupSum data keyColumn valueCol k =
     foldl jsAdd (Fin 0)
       (map (\<lambda>row. toNumber (row valueCol))
          (groupRows (rowKey keyColumn) (\<lambda>row. isNumeric (row valueCol)) data k))"

text \<open>The update of a bar group by one numeric row, and the fields a bar is drawn from.\<close>

definition barUpdate :: "string \<Rightarrow> row \<Rightarrow> jsval jsobj \<Rightarrow> jsval jsobj" where
  "barUpdate yAxis row g =
     (let g1 = objSet g yAxis (jsPlus (objGet g yAxis) (Num (toNumber (row yAxis))));
          g2 = objSet g1 ''count'' (jsPlus (objGet g1 ''count'') (Num (Fin 1)))
      in g2)"

text \<open>
  The bar reducer where it stays within the accumulator, and the rows on which its update
  lands on a built-in member in one of two ways: on a property that the member does not
  let it assign, or on a method of \<open>Object.prototype\<close> itself, which it replaces.
\<close>

definition barGroups :: "row list \<Rightarrow> string \<Rightarrow> string \<Rightarrow> jsval jsobj jsobj" where
  "barGroups data xAxis yAxis =
     foldl (groupStep (rowKey xAxis) (barGroup xAxis yAxis) (\<lambda>row. isNumeric (row yAxis))
              (barUpdate yAxis)) [] data"

definition overwritesPrototype :: "string \<Rightarrow> string \<Rightarrow> bool" where
  "overwritesPrototype member property =
     (member = ''__proto__'' \<and> property \<noteq> ''__proto__''
      \<and> property \<in> set objectPrototypeKeys)"

definition barEscapes :: "string \<Rightarrow> string \<Rightarrow> row \<Rightarrow> bool" where
  "barEscapes xAxis yAxis row =
     (isNumeric (row yAxis) \<and> rowKey xAxis row \<in> set objectPrototypeKeys
      \<and> (readOnlyMember (rowKey xAxis row) yAxis \<or> overwritesPrototype (rowKey xAxis row) yAxis))"

text \<open>
  The assignments made so far are to the value column or to \<open>count\<close>, and those to
  \<open>Object.prototype\<close> itself made a new property, replacing no method.
\<close>

definition newProperties :: "string \<Rightarrow> realm \<Rightarrow> bool" where
  "newProperties yAxis written =
     list_all (\<lambda>(member, property).
        (property = yAxis \<or> property = ''count'')
        \<and> (if member = ''__proto__'' then property \<notin> set objectPrototypeKeys else True)) written"

definition barPairs :: "string \<Rightarrow> string \<Rightarrow> jsval jsobj list \<Rightarrow> (jsval \<times> jsval) list" where
  "barPairs xAxis yAxis items = map (\<lambda>item. (objGet item xAxis, objGet item yAxis)) items"

definition barLabels :: "string \<Rightarrow> jsval jsobj list \<Rightarrow> jsval list" where
  "barLabels xAxis items = map (\<lambda>item. objGet item xAxis) items"

definition pieValues :: "pieItem list \<Rightarrow> jsnum list" where
  "pieValues items = map itemValue items"

definition pieLabelColumn :: "pieState \<Rightarrow> string" where
  "pieLabelColumn st =
     (if groupByState st \<and> pieStateColumn st \<noteq> [] then pieStateColumn st else labelColumn st)"

section \<open>Column classification\<close>

text \<open>
  \<open>new Set(values).size\<close>: the number of distinct values. The constants 0.8, 0.2 and 0.5
  are the rationals 4/5, 1/5 and 1/2.
\<close>

definition uniqueCount :: "row list \<Rightarrow> string \<Rightarrow> nat" where
  "uniqueCount data column = length (remdups (map (\<lambda>row. row column) data))"

text \<open>\<open>numericColumns\<close>, the same in the three components.\<close>

definition isNumericColumn :: "row list \<Rightarrow> string \<Rightarrow> bool" where
  "isNumericColumn data column =
     (let numericCount = length (filter (\<lambda>row. isNumeric (row column)) data)
      in jsGe (jsDiv (ofNat numericCount) (ofNat (length data))) (Fin (4 / 5)))"

definition numericColumns :: "row list \<Rightarrow> string list \<Rightarrow> string list" where
  "numericColumns data columns = filter (isNumericColumn data) columns"

text \<open>\<open>categoricalColumns\<close> of the bar chart.\<close>

definition isBarCategorical :: "row list \<Rightarrow> string list \<Rightarrow> string \<Rightarrow> bool" where
  "isBarCategorical data columns column =
     (let uniqueValues = uniqueCount data column
      in column \<notin> set (numericColumns data columns)
         \<or> jsLt (ofNat uniqueValues) (jsMul (ofNat (length data)) (Fin (1 / 5))))"

definition barCategoricalColumns :: "row list \<Rightarrow> string list \<Rightarrow> string list" where
  "barCategoricalColumns data columns = filter (isBarCategorical data columns) columns"

text \<open>\<open>categoricalColumns\<close> of the pie chart; \<open>Math.min\<close> is \<open>NaN\<close> if an argument is.\<close>

definition mathMin :: "jsnum \<Rightarrow> jsnum \<Rightarrow> jsnum" where
  "mathMin a b = (if isNaN a \<or> isNaN b then NaN else if jsLt b a then b else a)"

definition isPieCategorical :: "row list \<Rightarrow> string \<Rightarrow> bool" where
  "isPieCategorical data column =
     (let uniqueValues = uniqueCount data column
      in jsLt (ofNat uniqueValues) (mathMin (jsMul (ofNat (length data)) (Fin (1 / 5))) (Fin 10)))"

definition pieCategoricalColumns :: "row list \<Rightarrow> string list \<Rightarrow> string list" where
  "pieCategoricalColumns data columns = filter (isPieCategorical data) columns"

text \<open>\<open>sequentialColumns\<close> of the line chart.\<close>

definition isSequentialColumn :: "row list \<Rightarrow> string \<Rightarrow> bool" where
  "isSequentialColumn data column =
     (let name = toLowerCase column
      in if includesStr name ''date'' \<or> includesStr name ''time'' \<or> includesStr name ''year''
            \<or> includesStr name ''month'' \<or> includesStr name ''day''
         then True
         else (let uniqueValues = uniqueCount data column
               in 3 < uniqueValues
                  \<and> jsLe (ofNat uniqueValues) (jsMul (ofNat (length data)) (Fin (1 / 2)))))"

definition sequentialColumns :: "row list \<Rightarrow> string list \<Rightarrow> string list" where
  "sequentialColumns data columns = filter (isSequentialColumn data) columns"

text \<open>\<open>stateColumns\<close>, the same in the line and the pie chart.\<close>

definition isStateColumn :: "row list \<Rightarrow> string \<Rightarrow> bool" where
  "isStateColumn data column =
     (let name = toLowerCase column
      in if includesStr name ''state'' \<or> includesStr name ''region''
            \<or> includesStr name ''country'' \<or> includesStr name ''province''
            \<or> includesStr name ''location'' \<or> includesStr name ''territory''
         then True
         else (let uniqueValues = uniqueCount data column
               in 2 \<le> uniqueValues \<and> uniqueValues \<le> 100))"

definition stateColumns :: "row list \<Rightarrow> string list \<Rightarrow> string list" where
  "stateColumns data columns = filter (isStateColumn data) columns"

section \<open>Selections and views\<close>

text \<open>\<open>array[i]\<close> is \<open>undefined\<close> past the end; \<open>a || b\<close> is \<open>b\<close> for a falsy \<open>a\<close>.\<close>

definition elemAt :: "string list \<Rightarrow> nat \<Rightarrow> jsval" where
  "elemAt xs i = (if i < length xs then Str (xs ! i) else Undefined)"

definition orElse :: "jsval \<Rightarrow> jsval \<Rightarrow> jsval" where
  "orElse a b = (if truthy a then a else b)"

text \<open>What a component returns: one of the two messages, or the chart with its data.\<close>

datatype 'a view = NotEnoughColumns | NoValidData | Chart 'a

record barState =
  barXAxis :: string
  barYAxis :: string

definition barInitialState :: "row list \<Rightarrow> string list \<Rightarrow> barState" where
  "barInitialState data columns =
     \<lparr>barXAxis = toString (orElse (elemAt (barCategoricalColumns data columns) 0) (elemAt columns 0)),
      barYAxis = toString (orElse (orElse (elemAt (numericColumns data columns) 0) (elemAt columns 1))
                            (elemAt columns 0))\<rparr>"

definition BarChartView ::
  "(nat \<Rightarrow> rat) \<Rightarrow> barState \<Rightarrow> row list \<Rightarrow> string list \<Rightarrow> error + jsval jsobj list view"
  where
  "BarChartView rnd st data columns =
     (case barChartData rnd data (barXAxis st) (barYAxis st) of
        Inl e \<Rightarrow> Inl e
      | Inr chartData \<Rightarrow>
          Inr (if length columns < 2 then NotEnoughColumns
               else if 0 < length chartData then Chart chartData
               else NoValidData))"

definition pieInitialState :: "row list \<Rightarrow> string list \<Rightarrow> pieState" where
  "pieInitialState data columns =
     \<lparr>labelColumn = toString (orElse (elemAt (pieCategoricalColumns data columns) 0) (elemAt columns 0)),
      valueColumn = toString (orElse (orElse (elemAt (numericColumns data columns) 0) (elemAt columns 1))
                               (elemAt columns 0)),
      pieStateColumn = toString (orElse (elemAt (stateColumns data columns) 0) (Str '''')),
      pieSelectedState = '''',
      groupByState = False\<rparr>"

definition PieChartView :: "engine \<Rightarrow> pieState \<Rightarrow> row list \<Rightarrow> string list \<Rightarrow> pieItem list view" where
  "PieChartView engine st data columns =
     (let chartData = pieChartData engine st data
      in if length columns < 2 then NotEnoughColumns
         else if 0 < length chartData then Chart chartData
         else NoValidData)"

section \<open>Line chart (\<open>src/components/line-chart-view.tsx\<close>)\<close>

record lineState =
  lineXAxis :: string
  lineYAxis :: string
  lineStateColumn :: string
  lineSelectedState :: string
  showAllStates :: bool

definition lineInitialState :: "row list \<Rightarrow> string list \<Rightarrow> lineState" where
  "lineInitialState data columns =
     \<lparr>lineXAxis = toString (orElse (elemAt (sequentialColumns data columns) 0) (elemAt columns 0)),
      lineYAxis = toString (orElse (orElse (elemAt (numericColumns data columns) 0) (elemAt columns 1))
                         (elemAt columns 0)),
      lineStateColumn = toString (orElse (elemAt (stateColumns data columns) 0) (Str '''')),
      lineSelectedState = '''',
      showAllStates = True\<rparr>"

text \<open>
  \<open>[...new Set(keys)].sort()\<close>: the distinct keys, sorted as strings by the default
  comparison.
\<close>

definition stateOptions :: "lineState \<Rightarrow> row list \<Rightarrow> string list" where
  "stateOptions st data =
     (if lineStateColumn st = [] then []
      else sort (firstSeen (map (\<lambda>row. groupKey (row (lineStateColumn st))) data)))"

text \<open>
  \<open>Date.parse\<close> is an input of the model, \<open>dateParse\<close>: ECMAScript fixes its result on the
  ISO format only and leaves every other string to the engine. \<open>new Date(v).getTime()\<close>
  parses a string and clips the number of any other value.
\<close>

definition timeClip :: "jsnum \<Rightarrow> jsnum" where
  "timeClip n =
     (case n of
        Fin q \<Rightarrow> if \<bar>q\<bar> \<le> 8640000000000000
                 then Fin (of_int (if 0 \<le> q then \<lfloor>q\<rfloor> else \<lceil>q\<rceil>)) else NaN
      | _ \<Rightarrow> NaN)"

definition dateTime :: "(string \<Rightarrow> jsnum) \<Rightarrow> jsval \<Rightarrow> jsnum" where
  "dateTime dateParse v =
     (case v of
        Str s \<Rightarrow> dateParse s
      | _ \<Rightarrow> timeClip (toNumber v))"

definition isDateRow :: "(string \<Rightarrow> jsnum) \<Rightarrow> string \<Rightarrow> row \<Rightarrow> bool" where
  "isDateRow dateParse column row =
     (let val = row column in truthy val \<and> \<not> isNaN (dateParse (toString val)))"

definition byDate :: "(string \<Rightarrow> jsnum) \<Rightarrow> string \<Rightarrow> row \<Rightarrow> row \<Rightarrow> jsnum" where
  "byDate dateParse column a b = jsSub (dateTime dateParse (a column)) (dateTime dateParse (b column))"

definition byNumber :: "string \<Rightarrow> row \<Rightarrow> row \<Rightarrow> jsnum" where
  "byNumber column a b = jsSub (toNumber (a column)) (toNumber (b column))"

definition sortedData :: "(string \<Rightarrow> jsnum) \<Rightarrow> engine \<Rightarrow> lineState \<Rightarrow> row list \<Rightarrow> row list" where
  "sortedData dateParse engine st data =
     (let dataToSort = data;
          isDate = list_ex (isDateRow dateParse (lineXAxis st)) dataToSort
      in if isDate then arraySort engine (byDate dateParse (lineXAxis st)) dataToSort
         else (let isNum = list_ex (\<lambda>row. isNumeric (row (lineXAxis st))) dataToSort
               in if isNum then arraySort engine (byNumber (lineXAxis st)) dataToSort
                  else dataToSort))"

text \<open>
  The item \<open>{ [xAxis]: ..., [yAxis]: ..., ...(stateColumn ? { [stateColumn]: ... } : {}) }\<close>;
  a later key overwrites an earlier equal one.
\<close>

definition lineItem :: "lineState \<Rightarrow> row \<Rightarrow> jsval jsobj" where
  "lineItem st row =
     (let item = objSet (objSet [] (lineXAxis st) (row (lineXAxis st))) (lineYAxis st)
                   (Num (if isNumeric (row (lineYAxis st)) then toNumber (row (lineYAxis st)) else Fin 0))
      in if lineStateColumn st \<noteq> [] then objSet item (lineStateColumn st) (row (lineStateColumn st))
         else item)"

definition hasX :: "lineState \<Rightarrow> row \<Rightarrow> bool" where
  "hasX st row = (row (lineXAxis st) \<noteq> Undefined \<and> row (lineXAxis st) \<noteq> Null)"

definition lineFilteredData :: "(string \<Rightarrow> jsnum) \<Rightarrow> engine \<Rightarrow> lineState \<Rightarrow> row list \<Rightarrow> row list" where
  "lineFilteredData dateParse engine st data =
     (if lineStateColumn st \<noteq> [] \<and> \<not> showAllStates st \<and> lineSelectedState st \<noteq> []
      then filter (\<lambda>row. toString (row (lineStateColumn st)) = lineSelectedState st)
             (sortedData dateParse engine st data)
      else sortedData dateParse engine st data)"

definition lineChartData :: "(string \<Rightarrow> jsnum) \<Rightarrow> engine \<Rightarrow> lineState \<Rightarrow> row list \<Rightarrow> jsval jsobj list" where
  "lineChartData dateParse engine st data =
     take 100 (map (lineItem st) (filter (hasX st) (lineFilteredData dateParse engine st data)))"

text \<open>
  The lines drawn: in the show-all mode one \<open>Line\<close> for each option, over the items whose
  stringified grouping value is the option; otherwise one line over all items.
\<close>

definition subSeries ::
  "(string \<Rightarrow> jsnum) \<Rightarrow> engine \<Rightarrow> lineState \<Rightarrow> row list \<Rightarrow> string \<Rightarrow> jsval jsobj list"
  where
  "subSeries dateParse engine st data state =
     filter (\<lambda>item. toString (objGet item (lineStateColumn st)) = state)
       (lineChartData dateParse engine st data)"

definition lineSeries ::
  "(string \<Rightarrow> jsnum) \<Rightarrow> engine \<Rightarrow> lineState \<Rightarrow> row list
   \<Rightarrow> (string \<times> jsval jsobj list) list" where
  "lineSeries dateParse engine st data =
     (if lineStateColumn st \<noteq> [] \<and> showAllStates st
      then map (\<lambda>state. (state, subSeries dateParse engine st data state)) (stateOptions st data)
      else [(lineYAxis st, lineChartData dateParse engine st data)])"

definition LineChartView ::
  "(string \<Rightarrow> jsnum) \<Rightarrow> engine \<Rightarrow> lineState \<Rightarrow> row list \<Rightarrow> string list
   \<Rightarrow> (string \<times> jsval jsobj list) list view" where
  "LineChartView dateParse engine st data columns =
     (let chartData = lineChartData dateParse engine st data
      in if length columns < 2 then NotEnoughColumns
         else if 0 < length chartData then Chart (lineSeries dateParse engine st data)
         else NoValidData)"

text \<open>
  An engine for concrete datasets: it sorts the indices by insertion, from the table.
\<close>

definition insertionEngine :: engine where
  "insertionEngine table = stableSort (\<lambda>i j. table ! i ! j) [0..<length table]"

text \<open>
  An instance of \<open>Date.parse\<close> for concrete datasets: the date-only ISO form
  \<open>YYYY-MM-DD\<close> is midnight UTC of that day, in milliseconds since 1970-01-01; every other
  string is \<open>NaN\<close>, as for an engine that recognises nothing else.
\<close>

definition daysFromCivil :: "int \<Rightarrow> int \<Rightarrow> int \<Rightarrow> int" where
  "daysFromCivil y m d =
     (let y1 = (if m \<le> 2 then y - 1 else y);
          era = y1 div 400;
          yoe = y1 - era * 400;
          doy = (153 * (if 2 < m then m - 3 else m + 9) + 2) div 5 + d - 1;
          doe = yoe * 365 + yoe div 4 - yoe div 100 + doy
      in era * 146097 + doe - 719468)"

definition isoDateOnly :: "string \<Rightarrow> jsnum" where
  "isoDateOnly s =
     (if length s = 10 \<and> list_all isDigit (take 4 s) \<and> s ! 4 = CHR ''-''
         \<and> list_all isDigit (take 2 (drop 5 s)) \<and> s ! 7 = CHR ''-''
         \<and> list_all isDigit (drop 8 s)
      then (let y = digitsVal (take 4 s); m = digitsVal (take 2 (drop 5 s));
                d = digitsVal (drop 8 s)
            in if 1 \<le> m \<and> m \<le> 12 \<and> 1 \<le> d \<and> d \<le> 31
               then Fin (of_int (daysFromCivil y m d * 86400000)) else NaN)
      else NaN)"

definition dateRow :: "string \<Rightarrow> string \<Rightarrow> row" where
  "dateRow d v = mkRow [(''date'', Str d), (''value'', Str v)]"

definition dateValue :: "lineState" where
  "dateValue =
     \<lparr>lineXAxis = ''date'', lineYAxis = ''value'', lineStateColumn = '''', lineSelectedState = '''',
      showAllStates = True\<rparr>"

text \<open>The cells of a row that the line chart reads.\<close>

definition lineCells :: "lineState \<Rightarrow> row \<Rightarrow> jsval \<times> jsval \<times> jsval" where
  "lineCells st row = (row (lineXAxis st), row (lineYAxis st), row (lineStateColumn st))"

definition lineXs :: "lineState \<Rightarrow> jsval jsobj list \<Rightarrow> jsval list" where
  "lineXs st items = map (\<lambda>item. objGet item (lineXAxis st)) items"

section \<open>Concrete datasets\<close>

definition zeroRandom :: "nat \<Rightarrow> rat" where
  "zeroRandom i = 0"

definition halfRandom :: "nat \<Rightarrow> rat" where
  "halfRandom i = 1 / 2"

definition categoryAmountRow :: "string \<Rightarrow> string \<Rightarrow> row" where
  "categoryAmountRow c a = mkRow [(''category'', Str c), (''amount'', Str a)]"

definition exampleRows :: "row list" where
  "exampleRows =
     [categoryAmountRow ''A'' ''10'', categoryAmountRow ''B'' ''20'', categoryAmountRow ''A'' ''5'']"

definition yearRows :: "row list" where
  "yearRows = [categoryAmountRow ''2023'' ''10'', categoryAmountRow ''2022'' ''20'']"

definition countRows :: "row list" where
  "countRows =
     [mkRow [(''category'', Str ''A''), (''count'', Str ''10'')],
      mkRow [(''category'', Str ''A''), (''count'', Str ''5'')]]"

definition tieRows :: "row list" where
  "tieRows = [categoryAmountRow ''A'' ''5'', categoryAmountRow ''B'' ''5'']"

definition negativeRows :: "row list" where
  "negativeRows = [categoryAmountRow ''x'' ''-5'', categoryAmountRow ''y'' ''n/a'']"

definition lateIndexRows :: "row list" where
  "lateIndexRows =
     map (\<lambda>c. categoryAmountRow c ''1'')
       [''a'', ''b'', ''c'', ''d'', ''e'', ''f'', ''g'', ''h'', ''i'', ''j'', ''k'', ''l'', ''m'',
        ''n'', ''o'', ''p'', ''q'', ''r'', ''s'', ''t'', ''7'']"

definition falsyRows :: "row list" where
  "falsyRows =
     [mkRow [(''category'', Num (Fin 0)), (''amount'', Str ''1'')],
      mkRow [(''category'', Bool False), (''amount'', Str ''2'')],
      mkRow [(''category'', Str ''0''), (''amount'', Str ''4'')],
      mkRow [(''amount'', Str ''8'')],
      mkRow [(''category'', Str ''''), (''amount'', Str ''16'')]]"

definition inheritedRow :: "string \<Rightarrow> string \<Rightarrow> string \<Rightarrow> row" where
  "inheritedRow column key v = mkRow [(''category'', Str key), (column, Str v)]"

definition namedRows :: "row list" where
  "namedRows = [mkRow [(''category'', Str ''A''), (''name'', Str ''5'')]]"

definition shortFirstRows :: "row list" where
  "shortFirstRows =
     [mkRow [(''category'', Str ''A'')],
      mkRow [(''category'', Str ''constructor''), (''name'', Str ''5'')]]"

definition categoryAmount :: "pieState" where
  "categoryAmount =
     \<lparr>labelColumn = ''category'', valueColumn = ''amount'', pieStateColumn = '''',
      pieSelectedState = '''', groupByState = False\<rparr>"

text \<open>A bar without its colour, and the colours of a chart configuration.\<close>

definition withoutFill :: "jsval jsobj \<Rightarrow> jsval jsobj" where
  "withoutFill item = filter (\<lambda>(k, v). k \<noteq> ''fill'') item"

definition configColors :: "configEntry jsobj \<Rightarrow> string list" where
  "configColors config = map (\<lambda>(k, entry). color entry) config"

definition paletteSlot :: "nat \<Rightarrow> string" where
  "paletteSlot index = COLORS ! (index mod length COLORS)"

definition stateRow :: "string \<Rightarrow> string \<Rightarrow> jsval \<Rightarrow> row" where
  "stateRow d v s = mkRow [(''date'', Str d), (''value'', Str v), (''state'', s)]"

definition allStates :: "lineState" where
  "allStates =
     \<lparr>lineXAxis = ''date'', lineYAxis = ''value'', lineStateColumn = ''state'',
      lineSelectedState = '''', showAllStates = True\<rparr>"

definition missingStateRows :: "row list" where
  "missingStateRows =
     [stateRow ''2023-01-01'' ''1'' Undefined, stateRow ''2023-01-02'' ''2'' (Str ''CA''),
      stateRow ''2023-01-03'' ''3'' (Str '''')]"

definition literalUnknownRows :: "row list" where
  "literalUnknownRows =
     [stateRow ''2023-01-01'' ''1'' Undefined, stateRow ''2023-01-02'' ''2'' (Str ''Unknown'')]"

text \<open>The sort keys of a row, and the two properties of a list of rows they give.\<close>

definition rowTime :: "(string \<Rightarrow> jsnum) \<Rightarrow> string \<Rightarrow> row \<Rightarrow> jsnum" where
  "rowTime dateParse column row = dateTime dateParse (row column)"

definition rowNumber :: "string \<Rightarrow> row \<Rightarrow> jsnum" where
  "rowNumber column row = toNumber (row column)"

definition allValid :: "(row \<Rightarrow> jsnum) \<Rightarrow> row list \<Rightarrow> bool" where
  "allValid key rows = list_all (\<lambda>row. \<not> isNaN (key row)) rows"

definition ascendingBy :: "(row \<Rightarrow> jsnum) \<Rightarrow> row list \<Rightarrow> bool" where
  "ascendingBy key rows = sorted_wrt (\<lambda>a b. jsLe (key a) (key b)) rows"

definition numericRow :: "string \<Rightarrow> row \<Rightarrow> bool" where
  "numericRow column row = isNumeric (row column)"

definition swappedDateRows :: "row list" where
  "swappedDateRows = [dateRow ''2023-01-02'' ''1'', dateRow ''2023-01-01'' ''n/a'']"

definition notedDateRows :: "row list" where
  "notedDateRows =
     [mkRow [(''date'', Str ''2023-01-02''), (''value'', Str ''1''), (''note'', Str ''late'')],
      mkRow [(''date'', Str ''2023-01-01''), (''value'', Str ''n/a''), (''note'', Str ''early'')]]"

definition mixedDateRows :: "row list" where
  "mixedDateRows =
     [dateRow ''2023-01-02'' ''1'', dateRow '''' ''2'', dateRow ''2023-01-01'' ''3'']"

definition numberRows :: "row list" where
  "numberRows = [dateRow ''10'' ''1'', dateRow ''9'' ''2'', dateRow ''-1'' ''3'']"

definition textRows :: "row list" where
  "textRows = [dateRow ''b'' ''1'', dateRow ''a'' ''2'']"

section \<open>Properties\<close>

subsection \<open>The value classifier\<close>

lemma isNumeric_examples:
  "isNumeric (Str ''42'')" "isNumeric (Str ''3.14'')" "isNumeric (Str ''-7'')"
  "\<not> isNumeric (Str ''12abc'')"
  by code_simp+

lemma isNumeric_unfold:
  "isNumeric v =
     (v \<noteq> Null \<and> v \<noteq> Undefined \<and> v \<noteq> Str '''' \<and>
      \<not> isNaN (strToNumber (trim (toString v))) \<and> \<not> isNaN (parseFloat (trim (toString v))))"
  by (simp add: isNumeric_def Let_def)

text \<open>
  C1 (as the code has it). \<open>isNumeric\<close> is false on \<open>null\<close>, \<open>undefined\<close> and the empty
  string; on every other value it is true exactly when BOTH conversions of the trimmed
  string, the strict \<open>Number\<close> and the prefix-based \<open>parseFloat\<close>, give a number other
  than \<open>NaN\<close>. So it is true on "42", "3.14" and "-7" and false on the prefix-only
  string "12abc".
\<close>

theorem isNumeric_both_conversions:
  "isNumeric v =
     (v \<noteq> Null \<and> v \<noteq> Undefined \<and> v \<noteq> Str '''' \<and>
      \<not> isNaN (strToNumber (trim (toString v))) \<and> \<not> isNaN (parseFloat (trim (toString v))))
   \<and> isNumeric (Str ''42'') \<and> isNumeric (Str ''3.14'') \<and> isNumeric (Str ''-7'')
   \<and> \<not> isNumeric (Str ''12abc'')"
  using isNumeric_unfold [of v] isNumeric_examples by blast

text \<open>
  C1 as stated fails: on "12abc" the prefix conversion gives 12, a valid number, and the
  strict conversion gives \<open>NaN\<close>; the classifier answers false, not true.
\<close>

theorem isNumeric_either_counterexample:
  "parseFloat (trim (toString (Str ''12abc''))) = Fin 12
   \<and> strToNumber (trim (toString (Str ''12abc''))) = NaN
   \<and> isNumeric (Str ''12abc'') = False"
  by code_simp

subsection \<open>Grouping\<close>

lemma map_of_keyed:
  "map_of (map (\<lambda>k. (k, f k)) ks) k = (if k \<in> set ks then Some (f k) else None)"
  by (induction ks) auto

lemma objSet_keyed_old:
  "k0 \<in> set ks \<Longrightarrow> objSet (map (\<lambda>k. (k, f k)) ks) k0 v = map (\<lambda>k. (k, (f(k0 := v)) k)) ks"
  by (auto simp: objSet_def map_of_keyed)

lemma objSet_keyed_new:
  "k0 \<notin> set ks \<Longrightarrow> objSet (map (\<lambda>k. (k, f k)) ks) k0 v = map (\<lambda>k. (k, f k)) ks @ [(k0, v)]"
  by (auto simp: objSet_def map_of_keyed)

lemma accGet_keyed:
  "accGet (map (\<lambda>k. (k, f k)) ks) k =
     (if k \<in> set ks then Own (f k)
      else if k \<in> set objectPrototypeKeys then Inherited else Absent)"
  by (simp add: accGet_def map_of_keyed)

lemma firstSeen_snoc:
  "firstSeen (xs @ [x]) = (if x \<in> set (firstSeen xs) then firstSeen xs else firstSeen xs @ [x])"
  by (simp add: firstSeen_def)

lemma set_firstSeen [simp]: "set (firstSeen xs) = set xs"
  by (induction xs rule: rev_induct) (auto simp: firstSeen_snoc firstSeen_def)

lemma distinct_firstSeen [simp]: "distinct (firstSeen xs)"
  by (induction xs rule: rev_induct) (auto simp: firstSeen_snoc firstSeen_def)

lemma groupKeys_snoc:
  "groupKeys keyOf (ds @ [r]) =
     (if keyOf r \<in> set objectPrototypeKeys \<or> keyOf r \<in> set (groupKeys keyOf ds)
      then groupKeys keyOf ds else groupKeys keyOf ds @ [keyOf r])"
  by (simp add: groupKeys_def firstSeen_snoc)

lemma set_groupKeys:
  "set (groupKeys keyOf ds) = {k \<in> keyOf ` set ds. k \<notin> set objectPrototypeKeys}"
  by (auto simp: groupKeys_def)

lemma groupRows_snoc:
  "groupRows keyOf numeric (ds @ [r]) k =
     (if keyOf r = k \<and> numeric r then groupRows keyOf numeric ds k @ [r]
      else groupRows keyOf numeric ds k)"
  by (simp add: groupRows_def)

lemma groupRows_fresh:
  "k \<notin> keyOf ` set ds \<Longrightarrow> groupRows keyOf numeric ds k = []"
  by (auto simp: groupRows_def filter_empty_conv)

lemma groupStep_fold:
  "foldl (groupStep keyOf newGroup numeric upd) [] data =
     map (\<lambda>k. (k, foldl (\<lambda>g row. upd row g) (newGroup k) (groupRows keyOf numeric data k)))
       (groupKeys keyOf data)"
proof (induction data rule: rev_induct)
  case Nil
  show ?case by (simp add: groupKeys_def firstSeen_def)
next
  case (snoc r ds)
  let ?G = "\<lambda>d k. foldl (\<lambda>g row. upd row g) (newGroup k) (groupRows keyOf numeric d k)"
  let ?K = "groupKeys keyOf ds"
  let ?k0 = "keyOf r"
  have "foldl (groupStep keyOf newGroup numeric upd) [] ds = map (\<lambda>k. (k, ?G ds k)) ?K"
    by (rule snoc.IH)
  then have acc: "foldl (groupStep keyOf newGroup numeric upd) [] (ds @ [r])
                  = groupStep keyOf newGroup numeric upd (map (\<lambda>k. (k, ?G ds k)) ?K) r"
    by simp
  consider (proto) "?k0 \<in> set objectPrototypeKeys"
    | (old) "?k0 \<notin> set objectPrototypeKeys" "?k0 \<in> set ?K"
    | (new) "?k0 \<notin> set objectPrototypeKeys" "?k0 \<notin> set ?K"
    by blast
  then show ?case
  proof cases
    case proto
    then have notin: "?k0 \<notin> set ?K" by (simp add: set_groupKeys)
    have same: "map (\<lambda>k. (k, ?G (ds @ [r]) k)) ?K = map (\<lambda>k. (k, ?G ds k)) ?K"
      using notin by (intro map_cong) (auto simp: groupRows_snoc)
    show ?thesis
      unfolding acc using proto notin same
      by (simp add: groupStep_def Let_def accGet_keyed groupKeys_snoc)
  next
    case old
    have upd_eq: "map (\<lambda>k. (k, ((?G ds)(?k0 := upd r (?G ds ?k0))) k)) ?K
                  = map (\<lambda>k. (k, ?G (ds @ [r]) k)) ?K" if "numeric r"
      using that by (intro map_cong) (auto simp: groupRows_snoc)
    have same: "map (\<lambda>k. (k, ?G (ds @ [r]) k)) ?K = map (\<lambda>k. (k, ?G ds k)) ?K" if "\<not> numeric r"
      using that by (intro map_cong) (auto simp: groupRows_snoc)
    show ?thesis
      unfolding acc using old upd_eq same
      by (simp add: groupStep_def Let_def accGet_keyed groupKeys_snoc objSet_keyed_old)
  next
    case new
    then have fresh: "?k0 \<notin> keyOf ` set ds" by (simp add: set_groupKeys)
    have g0: "groupRows keyOf numeric ds ?k0 = []" by (rule groupRows_fresh [OF fresh])
    have same: "map (\<lambda>k. (k, ?G (ds @ [r]) k)) ?K = map (\<lambda>k. (k, ?G ds k)) ?K"
      using new(2) by (intro map_cong) (auto simp: groupRows_snoc)
    have acc1: "accGet (map (\<lambda>k. (k, ?G ds k)) ?K @ [(?k0, newGroup ?k0)]) ?k0 = Own (newGroup ?k0)"
      using new(2) by (simp add: accGet_def map_of_keyed map_add_def)
    have set1: "objSet (map (\<lambda>k. (k, ?G ds k)) ?K @ [(?k0, newGroup ?k0)]) ?k0 v
                = map (\<lambda>k. (k, ?G ds k)) ?K @ [(?k0, v)]" for v
      using new(2) by (auto simp: objSet_def map_of_keyed map_add_def)
    show ?thesis
      unfolding acc using new same
      by (simp add: groupStep_def Let_def accGet_keyed groupKeys_snoc objSet_keyed_new
          acc1 set1 groupRows_snoc g0)
  qed
qed


text \<open>
  A row whose key is not the name of an inherited member, or whose value is not numeric,
  keeps the reducer within the accumulator: nothing is assigned to a built-in object.
\<close>

lemma accGet_objSet_Inherited:
  "accGet (if accGet acc k = Absent then objSet acc k v else acc) k = Inherited
   \<Longrightarrow> k \<in> set objectPrototypeKeys"
  by (auto simp: accGet_def objSet_def map_add_def split: option.splits if_splits)

lemma barStep_quiet:
  assumes "\<not> (isNumeric (row yAxis) \<and> rowKey xAxis row \<in> set objectPrototypeKeys)"
  shows "barStep xAxis yAxis (written, acc) row =
     Inr (written, groupStep (rowKey xAxis) (barGroup xAxis yAxis) (\<lambda>row. isNumeric (row yAxis))
            (barUpdate yAxis) acc row)"
proof (cases "isNumeric (row yAxis)")
  case False
  then show ?thesis
    by (simp add: barStep_def groupStep_def rowKey_def Let_def)
next
  case True
  let ?k = "groupKey (row xAxis)"
  let ?acc1 = "if accGet acc ?k = Absent then objSet acc ?k (barGroup xAxis yAxis ?k) else acc"
  from True assms have notin: "?k \<notin> set objectPrototypeKeys"
    by (simp add: rowKey_def)
  show ?thesis
  proof (cases "accGet ?acc1 ?k")
    case (Own g)
    with True show ?thesis
      by (simp add: barStep_def groupStep_def rowKey_def barUpdate_def Let_def)
  next
    case Inherited
    then have "?k \<in> set objectPrototypeKeys"
      by (rule accGet_objSet_Inherited)
    with notin show ?thesis by simp
  next
    case Absent
    with True show ?thesis
      by (simp add: barStep_def groupStep_def rowKey_def Let_def)
  qed
qed

lemma reduceE_barStep_quiet:
  "list_all (\<lambda>row. \<not> (isNumeric (row yAxis) \<and> rowKey xAxis row \<in> set objectPrototypeKeys)) data
   \<Longrightarrow> reduceE (barStep xAxis yAxis) (written, acc) data =
     Inr (written, foldl (groupStep (rowKey xAxis) (barGroup xAxis yAxis)
                            (\<lambda>row. isNumeric (row yAxis)) (barUpdate yAxis)) acc data)"
  by (induction data arbitrary: acc) (simp_all add: barStep_quiet)

lemma barReduce_quiet:
  "list_all (\<lambda>row. \<not> (isNumeric (row yAxis) \<and> rowKey xAxis row \<in> set objectPrototypeKeys)) data
   \<Longrightarrow> barReduce data xAxis yAxis = Inr ([], barGroups data xAxis yAxis)"
  by (simp add: barReduce_def barGroups_def reduceE_barStep_quiet)

lemma barChartData_quiet:
  "list_all (\<lambda>row. \<not> (isNumeric (row yAxis) \<and> rowKey xAxis row \<in> set objectPrototypeKeys)) data
   \<Longrightarrow> barChartData rnd data xAxis yAxis
       = Inr (barItems rnd xAxis yAxis (barGroups data xAxis yAxis))"
  by (simp add: barChartData_def barReduce_quiet)

text \<open>
  On the other rows the reducer assigns to built-in objects. As long as no assignment
  lands on a read-only property or replaces a method of \<open>Object.prototype\<close>, every
  property assigned to \<open>Object.prototype\<close> is a new one, the reducer does not throw, and
  the accumulator is the one of the rows that stay within it.
\<close>

lemma count_not_inherited: "''count'' \<notin> set objectPrototypeKeys"
  by (simp add: objectPrototypeKeys_def)

lemma builtinUpdate_ok:
  assumes inherited: "member \<in> set objectPrototypeKeys"
    and ro: "\<not> readOnlyMember member yAxis"
    and ow: "\<not> overwritesPrototype member yAxis"
    and inv: "newProperties yAxis written"
  shows "\<exists>written1. builtinUpdate written member yAxis = Inr written1
                     \<and> newProperties yAxis written1"
proof -
  have a: "(''__proto__'', member) \<notin> set written"
    using inv inherited by (auto simp: newProperties_def list_all_iff)
  have b: "\<not> (readsMethod written member yAxis \<and> (yAxis, ''toString'') \<in> set written)"
  proof
    assume r: "readsMethod written member yAxis \<and> (yAxis, ''toString'') \<in> set written"
    then have "yAxis = ''toString''"
      using inv by (auto simp: newProperties_def list_all_iff)
    with r have "member = ''__proto__''"
      by (simp add: readsMethod_def)
    with \<open>yAxis = ''toString''\<close> ow show False
      by (simp add: overwritesPrototype_def objectPrototypeKeys_def)
  qed
  have c: "newProperties yAxis (assignBuiltin (assignBuiltin written member yAxis) member ''count'')"
    using inv ow count_not_inherited
    by (auto simp: newProperties_def list_all_iff assignBuiltin_def overwritesPrototype_def)
  show ?thesis
    using a b c ro by (simp add: builtinUpdate_def)
qed

lemma barStep_ok:
  assumes ok: "\<not> barEscapes xAxis yAxis row" and inv: "newProperties yAxis written"
  shows "\<exists>written1. barStep xAxis yAxis (written, acc) row =
     Inr (written1, groupStep (rowKey xAxis) (barGroup xAxis yAxis) (\<lambda>row. isNumeric (row yAxis))
            (barUpdate yAxis) acc row) \<and> newProperties yAxis written1"
proof (cases "isNumeric (row yAxis) \<and> rowKey xAxis row \<in> set objectPrototypeKeys")
  case False
  then show ?thesis
    using barStep_quiet [of row yAxis xAxis written acc] inv by simp
next
  case True
  let ?k = "groupKey (row xAxis)"
  let ?acc1 = "if accGet acc ?k = Absent then objSet acc ?k (barGroup xAxis yAxis ?k) else acc"
  from True have k: "?k \<in> set objectPrototypeKeys" and num: "isNumeric (row yAxis)"
    by (simp_all add: rowKey_def)
  from ok True have ro: "\<not> readOnlyMember ?k yAxis" and ow: "\<not> overwritesPrototype ?k yAxis"
    by (simp_all add: barEscapes_def rowKey_def)
  obtain written1 where upd: "builtinUpdate written ?k yAxis = Inr written1"
      "newProperties yAxis written1"
    using builtinUpdate_ok [OF k ro ow inv] by blast
  have absent: "accGet acc ?k \<noteq> Absent"
    using k by (simp add: accGet_def split: option.splits)
  show ?thesis
  proof (cases "accGet acc ?k")
    case (Own g)
    with num inv show ?thesis
      by (simp add: barStep_def groupStep_def rowKey_def barUpdate_def Let_def)
  next
    case Inherited
    with num upd show ?thesis
      by (simp add: barStep_def groupStep_def rowKey_def Let_def)
  next
    case Absent
    with absent show ?thesis by simp
  qed
qed

lemma reduceE_barStep_ok:
  "\<not> list_ex (barEscapes xAxis yAxis) data \<Longrightarrow> newProperties yAxis written \<Longrightarrow>
   \<exists>written1. reduceE (barStep xAxis yAxis) (written, acc) data =
     Inr (written1, foldl (groupStep (rowKey xAxis) (barGroup xAxis yAxis)
                             (\<lambda>row. isNumeric (row yAxis)) (barUpdate yAxis)) acc data)"
proof (induction data arbitrary: written acc)
  case Nil
  then show ?case by simp
next
  case (Cons row data)
  from Cons.prems have ok: "\<not> barEscapes xAxis yAxis row" and rest: "\<not> list_ex (barEscapes xAxis yAxis) data"
    by simp_all
  obtain written1 where step: "barStep xAxis yAxis (written, acc) row =
      Inr (written1, groupStep (rowKey xAxis) (barGroup xAxis yAxis) (\<lambda>row. isNumeric (row yAxis))
             (barUpdate yAxis) acc row)" and inv: "newProperties yAxis written1"
    using barStep_ok [OF ok Cons.prems(2)] by blast
  show ?case
    using Cons.IH [OF rest inv] step by simp
qed

lemma barGroupedData_ok:
  "\<not> list_ex (barEscapes xAxis yAxis) data \<Longrightarrow>
   barGroupedData data xAxis yAxis = Inr (barGroups data xAxis yAxis)"
proof -
  assume "\<not> list_ex (barEscapes xAxis yAxis) data"
  moreover have "newProperties yAxis []"
    by (simp add: newProperties_def)
  ultimately obtain written1 where
    "reduceE (barStep xAxis yAxis) ([], []) data = Inr (written1, barGroups data xAxis yAxis)"
    using reduceE_barStep_ok [of xAxis yAxis data "[]" "[]"] by (auto simp: barGroups_def)
  then show ?thesis
    by (simp add: barGroupedData_def barReduce_def)
qed

text \<open>
  Rows whose key names an inherited member, on the key column "category". With the value
  column "values" the key "constructor" replaces \<open>Object.values\<close>, and the call after the
  reducer throws. With the value column "toString" the key "__proto__" replaces
  \<open>Object.prototype.toString\<close> by a string and the reducer goes on: the chart of the other
  row is returned; a later numeric row with the key "toString" finds that string and
  throws. With the value column "name" the key "constructor" throws at once.
\<close>

lemma inherited_key_rows:
  "barChartData zeroRandom [inheritedRow ''values'' ''constructor'' ''5''] ''category'' ''values''
   = Inl TypeError"
  "barWritten [inheritedRow ''values'' ''constructor'' ''5''] ''category'' ''values''
   = Inr [(''constructor'', ''values''), (''constructor'', ''count'')]"
  "barChartData zeroRandom
     [inheritedRow ''toString'' ''__proto__'' ''5'', inheritedRow ''toString'' ''A'' ''7'']
     ''category'' ''toString''
   = Inr [[(''category'', Str ''A''), (''toString'', Num (Fin 7)),
           (''fill'', Str ''hsl(var(--chart-1))'')]]"
  "barWritten
     [inheritedRow ''toString'' ''__proto__'' ''5'', inheritedRow ''toString'' ''A'' ''7'']
     ''category'' ''toString''
   = Inr [(''__proto__'', ''toString''), (''__proto__'', ''count'')]"
  "barChartData zeroRandom
     [inheritedRow ''toString'' ''__proto__'' ''5'', inheritedRow ''toString'' ''toString'' ''7'']
     ''category'' ''toString''
   = Inl TypeError"
  "barChartData zeroRandom [inheritedRow ''name'' ''constructor'' ''5''] ''category'' ''name''
   = Inl TypeError"
  by code_simp+

lemma insort_key_keyed:
  "insort_key (\<lambda>(k, v). d k) (k0, f k0) (map (\<lambda>k. (k, f k)) ks)
   = map (\<lambda>k. (k, f k)) (insort_key d k0 ks)"
  by (induction ks) auto

lemma sort_key_keyed:
  "sort_key (\<lambda>(k, v). d k) (map (\<lambda>k. (k, f k)) ks) = map (\<lambda>k. (k, f k)) (sort_key d ks)"
  by (induction ks) (simp_all add: insort_key_keyed)

lemma objectValues_keyed:
  "objectValues (map (\<lambda>k. (k, f k)) ks) = map f (keyOrder ks)"
  by (simp add: objectValues_def ownKeyOrder_def keyOrder_def filter_map comp_def
      sort_key_keyed)

lemma barUpdate_fold:
  assumes "xAxis \<noteq> yAxis" "xAxis \<noteq> ''count''" "yAxis \<noteq> ''count''"
  shows "foldl (\<lambda>g row. barUpdate yAxis row g)
           [(xAxis, Str k), (yAxis, Num s), (''count'', Num c)] rows
         = [(xAxis, Str k),
            (yAxis, Num (foldl jsAdd s (map (\<lambda>row. toNumber (row yAxis)) rows))),
            (''count'', Num (foldl (\<lambda>n row. jsAdd n (Fin 1)) c rows))]"
  using assms
  by (induction rows arbitrary: s c) (simp_all add: barUpdate_def objSet_def objGet_def)

lemma barGroup_fields:
  assumes "xAxis \<noteq> yAxis" "xAxis \<noteq> ''count''" "yAxis \<noteq> ''count''"
  shows "barGroup xAxis yAxis k = [(xAxis, Str k), (yAxis, Num (Fin 0)), (''count'', Num (Fin 0))]"
  using assms by (simp add: barGroup_def objSet_def)

lemma barGroups_eq:
  assumes "xAxis \<noteq> yAxis" "xAxis \<noteq> ''count''" "yAxis \<noteq> ''count''"
  shows "barGroups data xAxis yAxis =
     map (\<lambda>k. (k, [(xAxis, Str k), (yAxis, Num (groupSum data xAxis yAxis k)),
                    (''count'', Num (foldl (\<lambda>n row. jsAdd n (Fin 1)) (Fin 0)
                       (groupRows (rowKey xAxis) (\<lambda>row. isNumeric (row yAxis)) data k)))]))
       (groupKeys (rowKey xAxis) data)"
  by (simp add: barGroups_def groupStep_fold barGroup_fields [OF assms]
      barUpdate_fold [OF assms] groupSum_def)

lemma barItem_pair:
  assumes "xAxis \<noteq> yAxis" "xAxis \<noteq> ''fill''" "yAxis \<noteq> ''fill''"
  shows "objGet (barItem xAxis yAxis r item) xAxis = objGet item xAxis"
    and "objGet (barItem xAxis yAxis r item) yAxis = objGet item yAxis"
  using assms by (simp_all add: barItem_def objSet_def objGet_def)

lemma map_enumerate_ignore:
  "(\<And>i x. f i x = g x) \<Longrightarrow> map (\<lambda>(i, x). f i x) (enumerate n xs) = map g xs"
  by (induction xs arbitrary: n) auto

lemma barPairs_items:
  assumes "xAxis \<noteq> yAxis" "xAxis \<noteq> ''count''" "yAxis \<noteq> ''count''"
    "xAxis \<noteq> ''fill''" "yAxis \<noteq> ''fill''"
  shows "barPairs xAxis yAxis (barItems rnd xAxis yAxis (barGroups data xAxis yAxis)) =
     take 20 (map (\<lambda>k. (Str k, Num (groupSum data xAxis yAxis k)))
                (keyOrder (groupKeys (rowKey xAxis) data)))"
proof -
  have "map (\<lambda>(i, item). (objGet (barItem xAxis yAxis (rnd i) item) xAxis,
                           objGet (barItem xAxis yAxis (rnd i) item) yAxis))
          (enumerate 0 items)
        = map (\<lambda>item. (objGet item xAxis, objGet item yAxis)) items" for items
    using assms by (intro map_enumerate_ignore) (simp add: barItem_pair)
  then have "barPairs xAxis yAxis (barItems rnd xAxis yAxis (barGroups data xAxis yAxis)) =
        take 20 (map (\<lambda>item. (objGet item xAxis, objGet item yAxis))
                   (objectValues (barGroups data xAxis yAxis)))"
    unfolding barPairs_def barItems_def
    by (simp add: take_map [symmetric] comp_def case_prod_unfold)
  then show ?thesis
    using assms
    by (simp add: barGroups_eq objectValues_keyed comp_def objGet_def)
qed


subsection \<open>Sorting\<close>

lemma jsGe_total: "\<not> isNaN a \<Longrightarrow> \<not> isNaN b \<Longrightarrow> \<not> jsGe a b \<Longrightarrow> jsGe b a"
  by (cases a; cases b) (simp_all add: jsGe_def)

lemma jsGe_trans: "jsGe a b \<Longrightarrow> jsGe b c \<Longrightarrow> jsGe a c"
  by (cases a; cases b; cases c) (simp_all add: jsGe_def)

lemma jsGt_sign: "jsGt v (Fin 0) = (jsSign v = 1)"
  by (cases v) (simp_all add: jsGt_def)

lemma sign_sub:
  "\<not> isNaN a \<Longrightarrow> \<not> isNaN b \<Longrightarrow>
   jsSign (let v = jsSub a b in if isNaN v then Fin 0 else v)
   = (if \<not> jsGe b a then 1 else if \<not> jsGe a b then - 1 else 0)"
  by (cases a; cases b) (simp_all add: jsSub_def jsGe_def Let_def)

lemma mset_sortInsert [simp]: "mset (sortInsert cmp x ys) = add_mset x (mset ys)"
  by (induction ys) simp_all

lemma mset_stableSort [simp]: "mset (stableSort cmp xs) = mset xs"
  by (induction xs) simp_all

lemma set_sortInsert [simp]: "set (sortInsert cmp x ys) = insert x (set ys)"
  by (induction ys) auto

lemma set_stableSort [simp]: "set (stableSort cmp xs) = set xs"
  by (induction xs) simp_all

lemma sorted_sortInsert:
  assumes pos: "\<And>y. y \<in> set ys \<Longrightarrow> jsGt (sortCompare cmp x y) (Fin 0) = (\<not> le x y)"
    and total: "\<And>y. y \<in> set ys \<Longrightarrow> \<not> le x y \<Longrightarrow> le y x"
    and trans: "\<And>y z. y \<in> set ys \<Longrightarrow> z \<in> set ys \<Longrightarrow> le x y \<Longrightarrow> le y z \<Longrightarrow> le x z"
    and sorted: "sorted_wrt le ys"
  shows "sorted_wrt le (sortInsert cmp x ys)"
  using assms
proof (induction ys)
  case Nil
  then show ?case by simp
next
  case (Cons y ys)
  have gt: "jsGt (sortCompare cmp x y) (Fin 0) = (\<not> le x y)"
    by (rule Cons.prems(1)) simp
  have tail: "sorted_wrt le ys" and head: "\<forall>z\<in>set ys. le y z"
    using Cons.prems(4) by simp_all
  show ?case
  proof (cases "le x y")
    case True
    have "le x z" if "z \<in> set ys" for z
      using Cons.prems(3) [of y z] True head that by simp
    with True gt Cons.prems(4) show ?thesis by simp
  next
    case False
    have yx: "le y x" using Cons.prems(2) [of y] False by simp
    have "sorted_wrt le (sortInsert cmp x ys)"
    proof (rule Cons.IH)
      show "jsGt (sortCompare cmp x z) (Fin 0) = (\<not> le x z)" if "z \<in> set ys" for z
        using Cons.prems(1) [of z] that by simp
      show "le z x" if "z \<in> set ys" "\<not> le x z" for z
        using Cons.prems(2) [of z] that by simp
      show "le x z'" if "z \<in> set ys" "z' \<in> set ys" "le x z" "le z z'" for z z'
        using Cons.prems(3) [of z z'] that by simp
      show "sorted_wrt le ys" by (rule tail)
    qed
    with False gt yx head show ?thesis by simp
  qed
qed

lemma sorted_stableSort:
  assumes pos: "\<And>x y. x \<in> set xs \<Longrightarrow> y \<in> set xs \<Longrightarrow>
                  jsGt (sortCompare cmp x y) (Fin 0) = (\<not> le x y)"
    and total: "\<And>x y. x \<in> set xs \<Longrightarrow> y \<in> set xs \<Longrightarrow> \<not> le x y \<Longrightarrow> le y x"
    and trans: "\<And>x y z. le x y \<Longrightarrow> le y z \<Longrightarrow> le x z"
  shows "sorted_wrt le (stableSort cmp xs)"
  using assms(1,2)
proof (induction xs)
  case Nil
  show ?case by simp
next
  case (Cons x xs)
  have IH: "sorted_wrt le (stableSort cmp xs)"
  proof (rule Cons.IH)
    show "jsGt (sortCompare cmp a b) (Fin 0) = (\<not> le a b)" if "a \<in> set xs" "b \<in> set xs" for a b
      by (rule Cons.prems(1)) (simp_all add: that)
    show "le b a" if "a \<in> set xs" "b \<in> set xs" "\<not> le a b" for a b
      by (rule Cons.prems(2) [of a b]) (simp_all add: that)
  qed
  have "sorted_wrt le (sortInsert cmp x (stableSort cmp xs))"
  proof (rule sorted_sortInsert)
    show "jsGt (sortCompare cmp x y) (Fin 0) = (\<not> le x y)" if "y \<in> set (stableSort cmp xs)" for y
      using that by (intro Cons.prems(1)) simp_all
    show "le y x" if "y \<in> set (stableSort cmp xs)" "\<not> le x y" for y
      using that by (intro Cons.prems(2) [of x y]) simp_all
    show "le x z" if "le x y" "le y z" for y z
      using that by (rule trans)
    show "sorted_wrt le (stableSort cmp xs)" by (rule IH)
  qed
  then show ?case by simp
qed

text \<open>Whatever the engine, the sorted array is a rearrangement of the array.\<close>

lemma mset_arraySort [simp]: "mset (arraySort engine cmp xs) = mset xs"
proof -
  have "mset (map (\<lambda>i. xs ! i) order) = mset xs" if "sort order = [0..<length xs]" for order
  proof -
    have "mset order = mset [0..<length xs]"
      using that by (metis mset_sort)
    then have "mset (map (\<lambda>i. xs ! i) order) = mset (map (\<lambda>i. xs ! i) [0..<length xs])"
      by (metis mset_map)
    then show ?thesis
      by (simp add: map_nth)
  qed
  then show ?thesis
    by (simp add: arraySort_def Let_def)
qed

lemma set_arraySort [simp]: "set (arraySort engine cmp xs) = set xs"
  using mset_arraySort [of engine cmp xs] by (rule mset_eq_setD)

lemma length_arraySort [simp]: "length (arraySort engine cmp xs) = length xs"
  using mset_arraySort [of engine cmp xs] by (rule mset_eq_length)

text \<open>
  A comparator whose sign follows a total preorder of the elements is consistent, and the
  array comes out sorted by that preorder in every engine.
\<close>

lemma consistent_by_order:
  assumes sgn: "\<And>x y. x \<in> set xs \<Longrightarrow> y \<in> set xs \<Longrightarrow>
                  compareSign cmp x y = (if \<not> le x y then 1 else if \<not> le y x then - 1 else 0)"
    and total: "\<And>x y. x \<in> set xs \<Longrightarrow> y \<in> set xs \<Longrightarrow> \<not> le x y \<Longrightarrow> le y x"
    and trans: "\<And>x y z. le x y \<Longrightarrow> le y z \<Longrightarrow> le x z"
  shows "consistentComparator cmp xs"
proof -
  have refl: "compareSign cmp a a = 0" if "a \<in> set xs" for a
    using sgn [OF that that] total [OF that that] by auto
  have sym: "compareSign cmp b a = 0" if "a \<in> set xs" "b \<in> set xs" "compareSign cmp a b = 0" for a b
    using sgn [OF that(1,2)] sgn [OF that(2,1)] that(3) by (auto split: if_splits)
  have tr: "compareSign cmp a c = compareSign cmp a b"
    if "a \<in> set xs" "b \<in> set xs" "c \<in> set xs" "compareSign cmp a b = compareSign cmp b c" for a b c
  proof -
    note ab = sgn [OF that(1,2)] and bc = sgn [OF that(2,3)] and ac = sgn [OF that(1,3)]
    consider (above) "\<not> le a b" | (below) "le a b" "\<not> le b a" | (equal) "le a b" "le b a"
      by blast
    then show ?thesis
    proof cases
      case above
      with ab bc that(4) have bc': "\<not> le b c"
        by (auto split: if_splits)
      have "le b a" by (rule total [OF that(1,2) above])
      moreover have "le c b" by (rule total [OF that(2,3) bc'])
      ultimately have "\<not> le a c"
        using above trans by blast
      with ab ac above show ?thesis by simp
    next
      case below
      with ab bc that(4) have bc': "le b c" "\<not> le c b"
        by (auto split: if_splits)
      have "le a c" using below(1) bc'(1) by (rule trans)
      moreover have "\<not> le c a"
        using below(1) bc'(2) trans by blast
      ultimately show ?thesis
        using ab ac below by simp
    next
      case equal
      with ab bc that(4) have bc': "le b c" "le c b"
        by (auto split: if_splits)
      have "le a c" using equal(1) bc'(1) by (rule trans)
      moreover have "le c a" using bc'(2) equal(2) by (rule trans)
      ultimately show ?thesis
        using ab ac equal by simp
    qed
  qed
  show ?thesis
    unfolding consistentComparator_def list_all_iff
  proof (intro ballI conjI)
    fix a assume "a \<in> set xs"
    then show "compareSign cmp a a = 0" by (rule refl)
  next
    fix a b assume "a \<in> set xs" "b \<in> set xs"
    then show "if compareSign cmp a b = 0 then compareSign cmp b a = 0 else True"
      using sym [of a b] by simp
  next
    fix a b c assume "a \<in> set xs" "b \<in> set xs" "c \<in> set xs"
    then show "if compareSign cmp a b = compareSign cmp b c
               then compareSign cmp a c = compareSign cmp a b else True"
      using tr [of a b c] by simp
  qed
qed

lemma sorted_arraySort:
  assumes sgn: "\<And>x y. x \<in> set xs \<Longrightarrow> y \<in> set xs \<Longrightarrow>
                  compareSign cmp x y = (if \<not> le x y then 1 else if \<not> le y x then - 1 else 0)"
    and total: "\<And>x y. x \<in> set xs \<Longrightarrow> y \<in> set xs \<Longrightarrow> \<not> le x y \<Longrightarrow> le y x"
    and trans: "\<And>x y z. le x y \<Longrightarrow> le y z \<Longrightarrow> le x z"
  shows "arraySort engine cmp xs = stableSort cmp xs"
    and "sorted_wrt le (arraySort engine cmp xs)"
proof -
  have "consistentComparator cmp xs"
    using assms by (rule consistent_by_order)
  then show eq: "arraySort engine cmp xs = stableSort cmp xs"
    by (simp add: arraySort_def)
  have "sorted_wrt le (stableSort cmp xs)"
  proof (rule sorted_stableSort)
    show "jsGt (sortCompare cmp x y) (Fin 0) = (\<not> le x y)" if "x \<in> set xs" "y \<in> set xs" for x y
      using sgn [OF that] by (simp add: jsGt_sign compareSign_def)
    show "le y x" if "x \<in> set xs" "y \<in> set xs" "\<not> le x y" for x y
      using that by (rule total)
    show "le x z" if "le x y" "le y z" for x y z
      using that by (rule trans)
  qed
  then show "sorted_wrt le (arraySort engine cmp xs)"
    by (simp add: eq)
qed

subsection \<open>Pie chart\<close>

lemma pieStep_groupStep:
  "pieStep labelCol valueCol =
     groupStep (rowKey labelCol) (\<lambda>k. \<lparr>itemName = k, itemValue = Fin 0\<rparr>)
       (\<lambda>row. isNumeric (row valueCol))
       (\<lambda>row g. g\<lparr>itemValue := jsAdd (itemValue g) (toNumber (row valueCol))\<rparr>)"
  by (intro ext) (simp add: pieStep_def groupStep_def rowKey_def Let_def)

lemma pieUpdate_fold:
  "foldl (\<lambda>g row. g\<lparr>itemValue := jsAdd (itemValue g) (toNumber (row valueCol))\<rparr>)
     \<lparr>itemName = k, itemValue = s\<rparr> rows
   = \<lparr>itemName = k, itemValue = foldl jsAdd s (map (\<lambda>row. toNumber (row valueCol)) rows)\<rparr>"
  by (induction rows arbitrary: s) simp_all

lemma pieGroupedData_eq:
  "pieGroupedData st data =
     map (\<lambda>k. (k, \<lparr>itemName = k,
                    itemValue = groupSum (pieFilteredData st data) (pieLabelColumn st) (valueColumn st) k\<rparr>))
       (groupKeys (rowKey (pieLabelColumn st)) (pieFilteredData st data))"
  by (simp add: pieGroupedData_def pieLabelColumn_def pieStep_groupStep groupStep_fold
      pieUpdate_fold groupSum_def Let_def)

lemma positive_not_NaN: "jsGt v (Fin 0) \<Longrightarrow> \<not> isNaN v"
  by (cases v) (simp_all add: jsGt_def)

lemma pie_sorted:
  fixes items :: "pieItem list"
  assumes "\<And>item. item \<in> set items \<Longrightarrow> jsGt (itemValue item) (Fin 0)"
  shows "sorted_wrt (\<lambda>a b. jsGe (itemValue a) (itemValue b))
           (arraySort engine (\<lambda>a b. jsSub (itemValue b) (itemValue a)) items)"
proof (rule sorted_arraySort(2) [where le = "\<lambda>a b. jsGe (itemValue a) (itemValue b)"])
  fix a b assume ab: "a \<in> set items" "b \<in> set items"
  then have nn: "\<not> isNaN (itemValue a)" "\<not> isNaN (itemValue b)"
    using assms positive_not_NaN by blast+
  show "compareSign (\<lambda>a b. jsSub (itemValue b) (itemValue a)) a b
        = (if \<not> jsGe (itemValue a) (itemValue b) then 1
           else if \<not> jsGe (itemValue b) (itemValue a) then - 1 else 0)"
    using sign_sub [OF nn(2) nn(1)] by (simp add: compareSign_def sortCompare_def)
next
  fix a b assume ab: "a \<in> set items" "b \<in> set items"
    and not: "\<not> jsGe (itemValue a) (itemValue b)"
  from ab have nn: "\<not> isNaN (itemValue a)" "\<not> isNaN (itemValue b)"
    using assms positive_not_NaN by blast+
  show "jsGe (itemValue b) (itemValue a)"
    using jsGe_total [OF nn not] .
next
  fix a b c :: pieItem
  assume "jsGe (itemValue a) (itemValue b)" "jsGe (itemValue b) (itemValue c)"
  then show "jsGe (itemValue a) (itemValue c)" by (rule jsGe_trans)
qed

text \<open>
  C2 (as the code has it). For every dataset and every selection, and in every engine,
  the pie chart's data has at most 12 entries, every entry has a value greater than 0, and
  the values are in descending order; the order is not strict, since groups with equal
  sums stay side by side.
\<close>

theorem pie_positive_descending_at_most_12:
  "length (pieChartData engine st data) \<le> 12
   \<and> list_all (\<lambda>v. jsGt v (Fin 0)) (pieValues (pieChartData engine st data))
   \<and> sorted_wrt jsGe (pieValues (pieChartData engine st data))"
proof -
  let ?kept = "filter (\<lambda>item. jsGt (itemValue item) (Fin 0)) (objectValues (pieGroupedData st data))"
  let ?sorted = "arraySort engine (\<lambda>a b. jsSub (itemValue b) (itemValue a)) ?kept"
  have data: "pieChartData engine st data = take 12 ?sorted"
    by (simp add: pieChartData_def)
  have "sorted_wrt (\<lambda>a b. jsGe (itemValue a) (itemValue b)) ?sorted"
    by (rule pie_sorted) simp
  then have "sorted_wrt (\<lambda>a b. jsGe (itemValue a) (itemValue b)) (take 12 ?sorted)"
    by (rule sorted_wrt_take)
  then have "sorted_wrt jsGe (pieValues (take 12 ?sorted))"
    by (simp add: pieValues_def sorted_wrt_map)
  moreover have "list_all (\<lambda>v. jsGt v (Fin 0)) (pieValues (take 12 ?sorted))"
    by (auto simp: pieValues_def list_all_iff dest: in_set_takeD)
  ultimately show ?thesis
    unfolding data by simp
qed

lemma tie_values: "pieValues (pieChartData insertionEngine categoryAmount tieRows) = [Fin 5, Fin 5]"
  by code_simp

text \<open>
  C2 as stated fails on "strictly": two groups with the same sum, A = 5 and B = 5, are both
  emitted, and 5 is not greater than 5.
\<close>

theorem pie_tie_counterexample:
  "pieValues (pieChartData insertionEngine categoryAmount tieRows) = [Fin 5, Fin 5]
   \<and> \<not> sorted_wrt jsGt (pieValues (pieChartData insertionEngine categoryAmount tieRows))"
  by (simp add: tie_values jsGt_def)

subsection \<open>Bar and pie aggregation\<close>

lemma length_keyOrder [simp]: "length (keyOrder ks) = length ks"
  by (simp add: keyOrder_def sum_length_filter_compl)

lemma set_keyOrder [simp]: "set (keyOrder ks) = set ks"
  by (auto simp: keyOrder_def)

lemma keyOrder_no_index:
  "list_all (\<lambda>k. \<not> isArrayIndex k) ks \<Longrightarrow> keyOrder ks = ks"
  by (simp add: keyOrder_def list_all_iff filter_empty_conv)

lemma keys_barGroups:
  "map fst (barGroups data xAxis yAxis) = groupKeys (rowKey xAxis) data"
  by (simp add: barGroups_def groupStep_fold comp_def)

lemma keys_pieGroupedData:
  "map fst (pieGroupedData st data) = groupKeys (rowKey (pieLabelColumn st)) (pieFilteredData st data)"
  by (simp add: pieGroupedData_eq comp_def)

lemma length_objectValues [simp]: "length (objectValues obj) = length obj"
  by (simp add: objectValues_def ownKeyOrder_def case_prod_unfold sum_length_filter_compl)

lemma length_barItems:
  "length (barItems rnd xAxis yAxis (barGroups data xAxis yAxis))
   = min 20 (length (groupKeys (rowKey xAxis) data))"
proof -
  have "length (barGroups data xAxis yAxis) = length (groupKeys (rowKey xAxis) data)"
    using keys_barGroups [of data xAxis yAxis] by (metis length_map)
  then show ?thesis
    by (simp add: barItems_def min.commute)
qed

lemma barLabels_pairs: "barLabels xAxis items = map fst (barPairs xAxis yAxis items)"
  by (simp add: barLabels_def barPairs_def comp_def)

lemma groupKeys_own:
  "\<forall>row\<in>set data. keyOf row \<notin> set objectPrototypeKeys \<Longrightarrow>
   groupKeys keyOf data = firstSeen (map keyOf data)"
proof -
  assume "\<forall>row\<in>set data. keyOf row \<notin> set objectPrototypeKeys"
  then have "filter (\<lambda>k. k \<notin> set objectPrototypeKeys) (map keyOf data) = map keyOf data"
    by (intro filter_True) auto
  then show ?thesis
    by (simp add: groupKeys_def)
qed

lemma own_keys_quiet:
  "\<forall>row\<in>set data. rowKey xAxis row \<notin> set objectPrototypeKeys \<Longrightarrow>
   list_all (\<lambda>row. \<not> (isNumeric (row yAxis) \<and> rowKey xAxis row \<in> set objectPrototypeKeys)) data"
  by (simp add: list_all_iff)

lemma groupSum_unfold:
  "groupSum data xAxis yAxis k =
     foldl jsAdd (Fin 0)
       (map (\<lambda>row. toNumber (row yAxis))
          (filter (\<lambda>row. rowKey xAxis row = k \<and> isNumeric (row yAxis)) data))"
  by (simp add: groupSum_def groupRows_def)

lemma rowKey_unfold:
  "rowKey xAxis row = (if truthy (row xAxis) then toString (row xAxis) else ''Unknown'')"
  by (simp add: rowKey_def groupKey_def)

lemma example_groups:
  "take 20 (map (\<lambda>k. (Str k, Num (groupSum exampleRows ''category'' ''amount'' k)))
              (keyOrder (firstSeen (map (rowKey ''category'') exampleRows))))
   = [(Str ''A'', Num (Fin 15)), (Str ''B'', Num (Fin 20))]"
  "list_all (\<lambda>row. rowKey ''category'' row \<notin> set objectPrototypeKeys) exampleRows"
  "firstSeen (map (rowKey ''category'') exampleRows) = [''A'', ''B'']"
  "list_all (\<lambda>k. \<not> isArrayIndex k) [''A'', ''B'']"
  by code_simp+

text \<open>
  C3 (as the code has it). Take a key column and a value column that differ, neither of
  them named "count" or "fill", and a dataset in which no row's key is the name of a
  member that every object inherits. The key of a row is its stringified key value, or
  "Unknown" for a falsy one. The bar aggregation returns one entry for each of the first
  20 keys in own-property order, carrying the key and the sum of \<open>Number(value)\<close> over
  exactly the rows of that key whose value passes \<open>isNumeric\<close>, added in row order from
  0 (exactly, where the code rounds every addition to a double: the two agree as long as
  the partial sums are representable, as for integers below \<open>2^53\<close>). Own-property order
  lists the keys that are array indices first, in ascending numeric order, and then the
  other keys in first-seen order; when no key is an array index it is the first-seen
  order.
\<close>

theorem bar_aggregation:
  assumes "xAxis \<noteq> yAxis" "xAxis \<noteq> ''count''" "yAxis \<noteq> ''count''"
    "xAxis \<noteq> ''fill''" "yAxis \<noteq> ''fill''"
    and "\<forall>row\<in>set data. rowKey xAxis row \<notin> set objectPrototypeKeys"
  shows "map_sum id (barPairs xAxis yAxis) (barChartData rnd data xAxis yAxis) =
           Inr (take 20 (map (\<lambda>k. (Str k, Num (groupSum data xAxis yAxis k)))
                           (keyOrder (firstSeen (map (rowKey xAxis) data)))))
         \<and> groupSum data xAxis yAxis k =
             foldl jsAdd (Fin 0)
               (map (\<lambda>row. toNumber (row yAxis))
                  (filter (\<lambda>row. rowKey xAxis row = k \<and> isNumeric (row yAxis)) data))
         \<and> rowKey xAxis row = (if truthy (row xAxis) then toString (row xAxis) else ''Unknown'')
         \<and> keyOrder (firstSeen (map (rowKey xAxis) data)) =
             sort_key digitsVal (filter isArrayIndex (firstSeen (map (rowKey xAxis) data)))
             @ filter (\<lambda>k. \<not> isArrayIndex k) (firstSeen (map (rowKey xAxis) data))
         \<and> (list_all (\<lambda>k. \<not> isArrayIndex k) (firstSeen (map (rowKey xAxis) data)) \<longrightarrow>
              keyOrder (firstSeen (map (rowKey xAxis) data)) = firstSeen (map (rowKey xAxis) data))"
proof -
  have "barChartData rnd data xAxis yAxis
        = Inr (barItems rnd xAxis yAxis (barGroups data xAxis yAxis))"
    using own_keys_quiet [OF assms(6)] by (rule barChartData_quiet)
  then have "map_sum id (barPairs xAxis yAxis) (barChartData rnd data xAxis yAxis) =
           Inr (take 20 (map (\<lambda>k. (Str k, Num (groupSum data xAxis yAxis k)))
                           (keyOrder (firstSeen (map (rowKey xAxis) data)))))"
    using barPairs_items [OF assms(1-5), of rnd data] groupKeys_own [OF assms(6)] by simp
  then show ?thesis
    using groupSum_unfold [of data xAxis yAxis k] rowKey_unfold [of xAxis row] keyOrder_no_index
    by (simp add: keyOrder_def)
qed

text \<open>
  The dataset of the specification, A/10, B/20, A/5 on key "category" and value "amount",
  gives A = 15 and then B = 20.
\<close>

theorem bar_aggregation_witness:
  "map_sum id (barPairs ''category'' ''amount'')
     (barChartData zeroRandom exampleRows ''category'' ''amount'')
     = Inr [(Str ''A'', Num (Fin 15)), (Str ''B'', Num (Fin 20))]
   \<and> keyOrder (firstSeen (map (rowKey ''category'') exampleRows)) = [''A'', ''B'']"
proof -
  have own: "\<forall>row\<in>set exampleRows. rowKey ''category'' row \<notin> set objectPrototypeKeys"
    using example_groups(2) by (simp add: list_all_iff)
  show ?thesis
    using bar_aggregation [of "''category''" "''amount''" exampleRows zeroRandom, OF _ _ _ _ _ own]
      example_groups(1,3,4)
    by simp
qed

lemma year_pairs:
  "map_sum id (barPairs ''category'' ''amount'')
     (barChartData zeroRandom yearRows ''category'' ''amount'')
   = Inr [(Str ''2022'', Num (Fin 20)), (Str ''2023'', Num (Fin 10))]"
  "map (rowKey ''category'') yearRows = [''2023'', ''2022'']"
  by code_simp+

text \<open>
  C3 as stated fails on the order: with the keys "2023" and then "2022", both array
  indices, the group of "2022" is emitted first although "2023" was seen first.
\<close>

theorem bar_first_seen_counterexample:
  "map (rowKey ''category'') yearRows = [''2023'', ''2022'']
   \<and> map_sum id (barPairs ''category'' ''amount'')
       (barChartData zeroRandom yearRows ''category'' ''amount'')
       = Inr [(Str ''2022'', Num (Fin 20)), (Str ''2023'', Num (Fin 10))]"
  using year_pairs by blast

text \<open>
  C5 (as the code has it). On a dataset in which no row's key is the name of a member
  that every object inherits, the bar aggregation emits \<open>min 20 n\<close> entries for \<open>n\<close>
  different keys, so no group is filtered out, whatever its sum. When moreover the key
  column and the value column differ and neither is named "count" or "fill", the labels
  are the first 20 keys in own-property order (array indices ascending, then the other
  keys in first-seen order, with no sorting by value), and each of them is the key of
  some input row.
\<close>

theorem bar_truncation:
  assumes "\<forall>row\<in>set data. rowKey xAxis row \<notin> set objectPrototypeKeys"
  shows "map_sum id length (barChartData rnd data xAxis yAxis)
           = Inr (min 20 (length (firstSeen (map (rowKey xAxis) data))))
         \<and> (xAxis \<noteq> yAxis \<and> xAxis \<noteq> ''count'' \<and> yAxis \<noteq> ''count''
              \<and> xAxis \<noteq> ''fill'' \<and> yAxis \<noteq> ''fill'' \<longrightarrow>
            map_sum id (barLabels xAxis) (barChartData rnd data xAxis yAxis)
              = Inr (take 20 (map Str (keyOrder (firstSeen (map (rowKey xAxis) data)))))
            \<and> set (take 20 (map Str (keyOrder (firstSeen (map (rowKey xAxis) data)))))
                \<subseteq> Str ` rowKey xAxis ` set data)"
proof -
  let ?items = "barItems rnd xAxis yAxis (barGroups data xAxis yAxis)"
  let ?keys = "firstSeen (map (rowKey xAxis) data)"
  have keys: "groupKeys (rowKey xAxis) data = ?keys"
    using assms by (rule groupKeys_own)
  have data: "barChartData rnd data xAxis yAxis = Inr ?items"
    using own_keys_quiet [OF assms] by (rule barChartData_quiet)
  have pairs: "barPairs xAxis yAxis ?items
                = take 20 (map (\<lambda>k. (Str k, Num (groupSum data xAxis yAxis k))) (keyOrder ?keys))"
    if "xAxis \<noteq> yAxis" "xAxis \<noteq> ''count''" "yAxis \<noteq> ''count''"
      "xAxis \<noteq> ''fill''" "yAxis \<noteq> ''fill''"
    using barPairs_items [OF that, of rnd data] by (simp add: keys)
  have labels: "barLabels xAxis ?items = take 20 (map Str (keyOrder ?keys))"
    if "xAxis \<noteq> yAxis" "xAxis \<noteq> ''count''" "yAxis \<noteq> ''count''"
      "xAxis \<noteq> ''fill''" "yAxis \<noteq> ''fill''"
    by (simp add: barLabels_pairs [of xAxis _ yAxis] pairs [OF that]
        take_map [symmetric] comp_def)
  have "set (take 20 (map Str (keyOrder ?keys))) \<subseteq> Str ` set ?keys"
    using set_take_subset [of 20 "map Str (keyOrder ?keys)"] by simp
  also have "\<dots> \<subseteq> Str ` rowKey xAxis ` set data"
    by simp
  finally have subset: "set (take 20 (map Str (keyOrder ?keys))) \<subseteq> Str ` rowKey xAxis ` set data" .
  have len: "length ?items = min 20 (length ?keys)"
    using length_barItems [of rnd xAxis yAxis data] by (simp add: keys)
  show ?thesis
    using labels subset len by (simp add: data)
qed

lemma negative_spec:
  "firstSeen (map (rowKey ''category'') negativeRows) = [''x'', ''y'']"
  "keyOrder [''x'', ''y''] = [''x'', ''y'']"
  "list_all (\<lambda>row. rowKey ''category'' row \<notin> set objectPrototypeKeys) negativeRows"
  "map_sum id (barPairs ''category'' ''amount'')
     (barChartData zeroRandom negativeRows ''category'' ''amount'')
   = Inr [(Str ''x'', Num (Fin (- 5))), (Str ''y'', Num (Fin 0))]"
  by code_simp+

text \<open>
  Groups whose sum is negative or zero are kept: x = -5 and y = 0.
\<close>

theorem bar_truncation_witness:
  "map_sum id length (barChartData zeroRandom negativeRows ''category'' ''amount'') = Inr 2
   \<and> map_sum id (barLabels ''category'')
       (barChartData zeroRandom negativeRows ''category'' ''amount'')
       = Inr [Str ''x'', Str ''y'']
   \<and> map_sum id (barPairs ''category'' ''amount'')
       (barChartData zeroRandom negativeRows ''category'' ''amount'')
       = Inr [(Str ''x'', Num (Fin (- 5))), (Str ''y'', Num (Fin 0))]"
proof -
  have own: "\<forall>row\<in>set negativeRows. rowKey ''category'' row \<notin> set objectPrototypeKeys"
    using negative_spec(3) by (simp add: list_all_iff)
  show ?thesis
    using bar_truncation [OF own, of zeroRandom "''amount''"] negative_spec(1,2,4)
    by simp
qed

lemma lateIndex_labels:
  "map_sum id (barLabels ''category'')
     (barChartData zeroRandom lateIndexRows ''category'' ''amount'')
   = Inr (map Str [''7'', ''a'', ''b'', ''c'', ''d'', ''e'', ''f'', ''g'', ''h'', ''i'', ''j'',
                   ''k'', ''l'', ''m'', ''n'', ''o'', ''p'', ''q'', ''r'', ''s''])"
  by code_simp

lemma lateIndex_keys:
  "take 20 (map (rowKey ''category'') lateIndexRows)
   = [''a'', ''b'', ''c'', ''d'', ''e'', ''f'', ''g'', ''h'', ''i'', ''j'', ''k'', ''l'', ''m'',
      ''n'', ''o'', ''p'', ''q'', ''r'', ''s'', ''t'']"
  by code_simp

text \<open>
  C5 as stated fails on "the first 20 in first-seen key order": with the keys a, ..., t and
  then "7", the array index "7" is emitted first and the twentieth key seen, t, is cut.
\<close>

theorem bar_first_twenty_counterexample:
  "take 20 (map (rowKey ''category'') lateIndexRows)
     = [''a'', ''b'', ''c'', ''d'', ''e'', ''f'', ''g'', ''h'', ''i'', ''j'', ''k'', ''l'', ''m'',
        ''n'', ''o'', ''p'', ''q'', ''r'', ''s'', ''t'']
   \<and> map_sum id (barLabels ''category'')
       (barChartData zeroRandom lateIndexRows ''category'' ''amount'')
     = Inr (map Str [''7'', ''a'', ''b'', ''c'', ''d'', ''e'', ''f'', ''g'', ''h'', ''i'', ''j'',
                     ''k'', ''l'', ''m'', ''n'', ''o'', ''p'', ''q'', ''r'', ''s''])"
  using lateIndex_labels lateIndex_keys by blast

text \<open>
  Why the value column must not be named "count": the group object keeps its own counter
  under that name, so the sum and the counter share one field and every numeric row adds
  its value and 1. The rows A/10 and A/5 give 17.
\<close>

lemma count_column_sum:
  "map_sum id (barPairs ''category'' ''count'')
     (barChartData zeroRandom countRows ''category'' ''count'')
   = Inr [(Str ''A'', Num (Fin 17))]"
  by code_simp

lemma groupKey_examples:
  "groupKey (Num (Fin 0)) = ''Unknown''" "groupKey (Bool False) = ''Unknown''"
  "groupKey Undefined = ''Unknown''" "groupKey Null = ''Unknown''"
  "groupKey (Str '''') = ''Unknown''" "groupKey (Num NaN) = ''Unknown''"
  "groupKey (Str ''0'') = ''0''"
  by (simp_all add: groupKey_def)

lemma falsy_groups:
  "\<not> list_ex (barEscapes ''category'' ''amount'') falsyRows"
  "groupKeys (rowKey ''category'') falsyRows = [''Unknown'', ''0'']"
  "map fst (pieGroupedData categoryAmount falsyRows) = [''Unknown'', ''0'']"
  by code_simp+

text \<open>
  C9. In the bar and the pie grouping the key of a row is "Unknown" for every falsy cell
  (the number 0, \<open>false\<close>, \<open>undefined\<close>, \<open>null\<close>, the empty string, \<open>NaN\<close>) and the
  stringified cell otherwise, so the string "0" keeps its own key; the groups made are the
  groups of these keys (for the bar chart, where no row makes the update land on a
  read-only property of a built-in member or on a method of \<open>Object.prototype\<close>).
\<close>

theorem unknown_for_falsy_keys:
  "groupKey v = (if truthy v then toString v else ''Unknown'')
   \<and> groupKey (Num (Fin 0)) = ''Unknown'' \<and> groupKey (Bool False) = ''Unknown''
   \<and> groupKey Undefined = ''Unknown'' \<and> groupKey Null = ''Unknown''
   \<and> groupKey (Str '''') = ''Unknown'' \<and> groupKey (Num NaN) = ''Unknown''
   \<and> groupKey (Str ''0'') = ''0''
   \<and> (\<not> list_ex (barEscapes xAxis yAxis) data \<longrightarrow>
        map_sum id (map fst) (barGroupedData data xAxis yAxis)
        = Inr (groupKeys (rowKey xAxis) data))
   \<and> map fst (pieGroupedData st data)
       = groupKeys (rowKey (pieLabelColumn st)) (pieFilteredData st data)
   \<and> rowKey xAxis row = groupKey (row xAxis)"
proof -
  have "groupKey v = (if truthy v then toString v else ''Unknown'')"
    by (simp add: groupKey_def)
  moreover have "map_sum id (map fst) (barGroupedData data xAxis yAxis)
                 = Inr (groupKeys (rowKey xAxis) data)"
    if "\<not> list_ex (barEscapes xAxis yAxis) data"
    using barGroupedData_ok [OF that] by (simp add: keys_barGroups)
  ultimately show ?thesis
    using groupKey_examples keys_pieGroupedData [of st data]
    by (simp add: rowKey_def)
qed

text \<open>
  On rows with the cells 0, \<open>false\<close>, "0", missing and "" there are two groups, "Unknown"
  and "0", in the bar and in the pie chart.
\<close>

theorem unknown_for_falsy_keys_witness:
  "map_sum id (map fst) (barGroupedData falsyRows ''category'' ''amount'')
     = Inr [''Unknown'', ''0'']
   \<and> map fst (pieGroupedData categoryAmount falsyRows) = [''Unknown'', ''0'']"
  using unknown_for_falsy_keys [of Undefined "''category''" "''amount''" falsyRows] falsy_groups
  by simp

subsection \<open>Classification of the empty dataset\<close>

lemma isNumericColumn_empty: "isNumericColumn [] column = False"
  by (simp add: isNumericColumn_def ofNat_def jsGe_def signedInf_def)

lemma numericColumns_empty: "numericColumns [] columns = []"
  by (simp add: numericColumns_def isNumericColumn_empty)

lemma barCategorical_empty: "barCategoricalColumns [] columns = columns"
  by (simp add: barCategoricalColumns_def isBarCategorical_def numericColumns_empty)

lemma pieCategorical_empty: "pieCategoricalColumns [] columns = []"
  by (simp add: pieCategoricalColumns_def isPieCategorical_def uniqueCount_def ofNat_def
      mathMin_def)

lemma isSequentialColumn_empty:
  "isSequentialColumn [] column =
     (includesStr (toLowerCase column) ''date'' \<or> includesStr (toLowerCase column) ''time''
      \<or> includesStr (toLowerCase column) ''year'' \<or> includesStr (toLowerCase column) ''month''
      \<or> includesStr (toLowerCase column) ''day'')"
  by (simp add: isSequentialColumn_def uniqueCount_def Let_def)

lemma isStateColumn_empty:
  "isStateColumn [] column =
     (includesStr (toLowerCase column) ''state'' \<or> includesStr (toLowerCase column) ''region''
      \<or> includesStr (toLowerCase column) ''country''
      \<or> includesStr (toLowerCase column) ''province''
      \<or> includesStr (toLowerCase column) ''location''
      \<or> includesStr (toLowerCase column) ''territory'')"
  by (simp add: isStateColumn_def uniqueCount_def Let_def)

text \<open>
  C7 (as the code has it). On a dataset with no rows the Numeric fraction is 0/0, which is
  \<open>NaN\<close>, and \<open>NaN >= 0.8\<close> is false: no column is Numeric, in any of the three
  components. The pie chart tags no column Categorical. The other roles are not empty:
  the bar chart tags every column Categorical, since a column that is not Numeric is
  Categorical, and a column is Sequential or a state column exactly when its name
  contains one of the hint words.
\<close>

theorem empty_dataset_roles:
  "jsDiv (ofNat 0) (ofNat (length ([] :: row list))) = NaN
   \<and> isNumericColumn [] column = False
   \<and> numericColumns [] columns = []
   \<and> pieCategoricalColumns [] columns = []
   \<and> barCategoricalColumns [] columns = columns
   \<and> isSequentialColumn [] column =
       (includesStr (toLowerCase column) ''date'' \<or> includesStr (toLowerCase column) ''time''
        \<or> includesStr (toLowerCase column) ''year'' \<or> includesStr (toLowerCase column) ''month''
        \<or> includesStr (toLowerCase column) ''day'')
   \<and> isStateColumn [] column =
       (includesStr (toLowerCase column) ''state'' \<or> includesStr (toLowerCase column) ''region''
        \<or> includesStr (toLowerCase column) ''country''
        \<or> includesStr (toLowerCase column) ''province''
        \<or> includesStr (toLowerCase column) ''location''
        \<or> includesStr (toLowerCase column) ''territory'')"
proof -
  have "jsDiv (ofNat 0) (ofNat (length ([] :: row list))) = NaN"
    by (simp add: ofNat_def signedInf_def)
  then show ?thesis
    using isNumericColumn_empty [of column] numericColumns_empty [of columns]
      pieCategorical_empty [of columns] barCategorical_empty [of columns]
      isSequentialColumn_empty [of column] isStateColumn_empty [of column]
    by blast
qed

lemma empty_examples:
  "barCategoricalColumns [] [''amount'', ''Order Date'', ''state''] = [''amount'', ''Order Date'', ''state'']"
  "sequentialColumns [] [''amount'', ''Order Date'', ''state''] = [''Order Date'']"
  "stateColumns [] [''amount'', ''Order Date'', ''state''] = [''state'']"
  by code_simp+

text \<open>
  On the columns amount, Order Date and state of an empty dataset.
\<close>

theorem empty_dataset_roles_witness:
  "numericColumns [] [''amount'', ''Order Date'', ''state''] = []
   \<and> pieCategoricalColumns [] [''amount'', ''Order Date'', ''state''] = []
   \<and> barCategoricalColumns [] [''amount'', ''Order Date'', ''state'']
       = [''amount'', ''Order Date'', ''state'']"
  using empty_dataset_roles [of "''amount''" "[''amount'', ''Order Date'', ''state'']"]
  by simp

text \<open>
  C7 as stated fails beyond the Numeric role: on an empty dataset the bar chart tags all
  three columns Categorical, "Order Date" is Sequential and "state" is a state column.
\<close>

theorem empty_dataset_tagged_counterexample:
  "barCategoricalColumns [] [''amount'', ''Order Date'', ''state'']
     = [''amount'', ''Order Date'', ''state'']
   \<and> sequentialColumns [] [''amount'', ''Order Date'', ''state''] = [''Order Date'']
   \<and> stateColumns [] [''amount'', ''Order Date'', ''state''] = [''state'']"
  using empty_examples by blast

subsection \<open>Fewer than two columns\<close>

lemma proto_not_numeric:
  "list_all (\<lambda>k. isNaN (strToNumber (trim k))) objectPrototypeKeys"
  "''Unknown'' \<notin> set objectPrototypeKeys"
  by code_simp+

lemma numeric_not_proto:
  assumes "isNumeric v"
  shows "groupKey v \<notin> set objectPrototypeKeys"
proof (cases "truthy v")
  case False
  then show ?thesis
    using proto_not_numeric(2) by (simp add: groupKey_def)
next
  case True
  from assms have "\<not> isNaN (strToNumber (trim (toString v)))"
    by (simp add: isNumeric_unfold)
  then have "toString v \<notin> set objectPrototypeKeys"
    using proto_not_numeric(1) by (auto simp: list_all_iff)
  with True show ?thesis
    by (simp add: groupKey_def)
qed

lemma same_column_quiet:
  "list_all (\<lambda>row. \<not> (isNumeric (row column) \<and> rowKey column row \<in> set objectPrototypeKeys)) data"
  using numeric_not_proto by (auto simp: list_all_iff rowKey_def)

lemma barInitialState_few:
  assumes "length columns < 2"
  shows "barXAxis (barInitialState data columns) = barYAxis (barInitialState data columns)"
proof (cases columns)
  case Nil
  then show ?thesis
    by (simp add: barInitialState_def barCategoricalColumns_def numericColumns_def elemAt_def
        orElse_def)
next
  case (Cons c cs)
  with assms have cs: "cs = []" by simp
  have cat: "barCategoricalColumns data [c] = [c] \<or> barCategoricalColumns data [c] = []"
    by (simp add: barCategoricalColumns_def)
  have num: "numericColumns data [c] = [c] \<or> numericColumns data [c] = []"
    by (simp add: numericColumns_def)
  show ?thesis
    using cat num
    by (auto simp: Cons cs barInitialState_def elemAt_def orElse_def)
qed

text \<open>
  With fewer than two columns the line and the pie chart return the not-enough-columns
  message whatever the rows and the selection, and nothing in them can throw. The bar
  chart returns it for the selection it starts with, where both axes are the same column
  or, with no column, both are missing (the property key "undefined"): a cell that is
  numeric is not the name of an inherited member.
\<close>

lemma insufficient_columns_initial:
  assumes "length columns < 2"
  shows "BarChartView rnd (barInitialState data columns) data columns = Inr NotEnoughColumns"
    and "LineChartView dateParse engine lineSt data columns = NotEnoughColumns"
    and "PieChartView engine pieSt data columns = NotEnoughColumns"
proof -
  let ?st = "barInitialState data columns"
  have "barChartData rnd data (barXAxis ?st) (barYAxis ?st)
        = Inr (barItems rnd (barXAxis ?st) (barYAxis ?st) (barGroups data (barXAxis ?st) (barYAxis ?st)))"
    using same_column_quiet [of "barYAxis ?st" data] barInitialState_few [OF assms, of data]
    by (intro barChartData_quiet) simp
  then show "BarChartView rnd ?st data columns = Inr NotEnoughColumns"
    using assms by (simp add: BarChartView_def)
  show "LineChartView dateParse engine lineSt data columns = NotEnoughColumns"
    using assms by (simp add: LineChartView_def Let_def)
  show "PieChartView engine pieSt data columns = NotEnoughColumns"
    using assms by (simp add: PieChartView_def Let_def)
qed

lemma kept_selection:
  "barInitialState namedRows [''category'', ''name'']
   = \<lparr>barXAxis = ''category'', barYAxis = ''name''\<rparr>"
  "BarChartView zeroRandom \<lparr>barXAxis = ''category'', barYAxis = ''name''\<rparr>
     namedRows [''category'', ''name'']
   = Inr (Chart [[(''category'', Str ''A''), (''name'', Num (Fin 5)),
                  (''fill'', Str ''hsl(var(--chart-1))'')]])"
  "BarChartView zeroRandom \<lparr>barXAxis = ''category'', barYAxis = ''name''\<rparr>
     shortFirstRows [''category'']
   = Inl TypeError"
  "LineChartView isoDateOnly insertionEngine (lineInitialState namedRows [''category'', ''name''])
     shortFirstRows [''category'']
   = NotEnoughColumns"
  "PieChartView insertionEngine (pieInitialState namedRows [''category'', ''name''])
     shortFirstRows [''category'']
   = NotEnoughColumns"
  by code_simp+

text \<open>
  C6 fails on the code, for the bar chart. The component keeps its axis selection when it
  is given another dataset, and it runs the reducer before it tests the number of
  columns. A first file with the columns category and name and the row A/5 leaves the
  selection category/name. A second file whose first row has the cell category alone has
  the single column category; its second row, constructor/5, has a numeric name and a
  key that names an inherited member, so the reducer's update is \<open>Object.name += 5\<close>,
  which throws. The bar chart throws where the line and the pie chart return the
  message.
\<close>

theorem bar_throws_before_columns_test:
  "barInitialState namedRows [''category'', ''name'']
     = \<lparr>barXAxis = ''category'', barYAxis = ''name''\<rparr>
   \<and> length [''category''] < (2::nat)
   \<and> BarChartView zeroRandom (barInitialState namedRows [''category'', ''name''])
        shortFirstRows [''category'']
      = Inl TypeError
   \<and> LineChartView isoDateOnly insertionEngine (lineInitialState namedRows [''category'', ''name''])
        shortFirstRows [''category'']
      = NotEnoughColumns
   \<and> PieChartView insertionEngine (pieInitialState namedRows [''category'', ''name''])
        shortFirstRows [''category'']
      = NotEnoughColumns"
  using kept_selection by simp

subsection \<open>Line chart: options and sub-series\<close>

lemma objGet_objSet_same [simp]: "objGet (objSet obj k v) k = v"
proof -
  have "map_of (map (\<lambda>(k', v'). if k' = k then (k', v) else (k', v')) obj) k = Some v"
    if "map_of obj k \<noteq> None" for obj :: "jsval jsobj"
    using that by (induction obj) (auto split: if_splits)
  then show ?thesis
    by (auto simp: objGet_def objSet_def map_add_def)
qed

lemma lineItem_state:
  "lineStateColumn st \<noteq> [] \<Longrightarrow> objGet (lineItem st row) (lineStateColumn st) = row (lineStateColumn st)"
  by (simp add: lineItem_def Let_def)

lemma set_stateOptions:
  "lineStateColumn st \<noteq> [] \<Longrightarrow>
   set (stateOptions st data) = (\<lambda>row. groupKey (row (lineStateColumn st))) ` set data"
  by (simp add: stateOptions_def)

lemma set_sortedData [simp]: "set (sortedData dateParse engine st data) = set data"
  by (simp add: sortedData_def Let_def)

lemma set_lineChartData: "set (lineChartData dateParse engine st data) \<subseteq> lineItem st ` set data"
proof -
  have "set (lineChartData dateParse engine st data)
        \<subseteq> set (map (lineItem st) (filter (hasX st) (lineFilteredData dateParse engine st data)))"
    unfolding lineChartData_def by (rule set_take_subset)
  also have "\<dots> \<subseteq> lineItem st ` set data"
    by (auto simp: lineFilteredData_def)
  finally show ?thesis .
qed

lemma falsy_not_Unknown: "\<not> truthy v \<Longrightarrow> toString v \<noteq> ''Unknown''"
  by (cases v) auto

lemma groupKey_falsy: "\<not> truthy v \<Longrightarrow> groupKey v = ''Unknown''"
  by (simp add: groupKey_def)

lemma groupKey_truthy: "truthy v \<Longrightarrow> groupKey v = toString v"
  by (simp add: groupKey_def)

lemma subSeries_member:
  "item \<in> set (subSeries dateParse engine st data state) \<longleftrightarrow>
   item \<in> set (lineChartData dateParse engine st data) \<and> toString (objGet item (lineStateColumn st)) = state"
  by (auto simp: subSeries_def)

lemma unknown_series_truthy:
  assumes col: "lineStateColumn st \<noteq> []"
    and mem: "item \<in> set (subSeries dateParse engine st data ''Unknown'')"
  shows "truthy (objGet item (lineStateColumn st))"
  using mem falsy_not_Unknown [of "objGet item (lineStateColumn st)"]
  by (auto simp: subSeries_member)

lemma unknown_series_empty:
  assumes col: "lineStateColumn st \<noteq> []"
    and none: "\<forall>row\<in>set data. toString (row (lineStateColumn st)) \<noteq> ''Unknown''"
  shows "subSeries dateParse engine st data ''Unknown'' = []"
proof -
  have "item \<notin> set (subSeries dateParse engine st data ''Unknown'')" for item
  proof
    assume mem: "item \<in> set (subSeries dateParse engine st data ''Unknown'')"
    then have "item \<in> lineItem st ` set data"
      using set_lineChartData [of dateParse engine st data] by (auto simp: subSeries_member)
    then obtain row where row: "row \<in> set data" "item = lineItem st row"
      by blast
    from mem have "toString (objGet item (lineStateColumn st)) = ''Unknown''"
      by (simp add: subSeries_member)
    then have "toString (row (lineStateColumn st)) = ''Unknown''"
      using row(2) col by (simp add: lineItem_state)
    with none row(1) show False by blast
  qed
  then show ?thesis
    by (meson last_in_set)
qed

lemma falsy_row_series:
  assumes col: "lineStateColumn st \<noteq> []"
    and falsy: "\<not> truthy (row (lineStateColumn st))"
    and opt: "state \<in> set (stateOptions st data)"
    and mem: "lineItem st row \<in> set (subSeries dateParse engine st data state)"
  shows "\<exists>other\<in>set data. truthy (other (lineStateColumn st))
            \<and> toString (other (lineStateColumn st)) = toString (row (lineStateColumn st))"
proof -
  from mem col have state: "toString (row (lineStateColumn st)) = state"
    by (simp add: subSeries_member lineItem_state)
  from opt col obtain other where other: "other \<in> set data"
      "groupKey (other (lineStateColumn st)) = state"
    by (auto simp: set_stateOptions)
  have "truthy (other (lineStateColumn st))"
  proof (rule ccontr)
    assume "\<not> truthy (other (lineStateColumn st))"
    then have "state = ''Unknown''"
      using other(2) by (simp add: groupKey_falsy)
    with state falsy_not_Unknown [OF falsy] show False by simp
  qed
  with other state show ?thesis
    by (auto simp: groupKey_truthy)
qed

text \<open>
  C10 (as the code has it). In the show-all mode of the line chart, with a grouping
  column selected: if some row's grouping value is falsy, "Unknown" is one of the
  options; no item of the "Unknown" sub-series has a falsy grouping value, and that
  sub-series is empty unless some row's grouping value stringifies to the very text
  "Unknown"; a row with a falsy grouping value belongs to the sub-series of an option
  only if some other row has a truthy grouping value with the same text as this row's
  stringified value (the text "undefined" for a missing value), and to none otherwise.
\<close>

theorem unknown_option_series:
  assumes "lineStateColumn st \<noteq> []"
  shows "((\<exists>row\<in>set data. \<not> truthy (row (lineStateColumn st))) \<longrightarrow>
            ''Unknown'' \<in> set (stateOptions st data))
         \<and> (\<forall>item\<in>set (subSeries dateParse engine st data ''Unknown'').
               truthy (objGet item (lineStateColumn st)))
         \<and> ((\<forall>row\<in>set data. toString (row (lineStateColumn st)) \<noteq> ''Unknown'') \<longrightarrow>
               subSeries dateParse engine st data ''Unknown'' = [])
         \<and> (\<forall>row\<in>set data. \<forall>state\<in>set (stateOptions st data).
               \<not> truthy (row (lineStateColumn st)) \<and>
               lineItem st row \<in> set (subSeries dateParse engine st data state) \<longrightarrow>
               (\<exists>other\<in>set data. truthy (other (lineStateColumn st))
                  \<and> toString (other (lineStateColumn st)) = toString (row (lineStateColumn st))))"
proof (intro conjI impI ballI)
  assume "\<exists>row\<in>set data. \<not> truthy (row (lineStateColumn st))"
  then obtain row where "row \<in> set data" "groupKey (row (lineStateColumn st)) = ''Unknown''"
    using groupKey_falsy by blast
  then show "''Unknown'' \<in> set (stateOptions st data)"
    using assms by (force simp: set_stateOptions)
next
  fix item assume "item \<in> set (subSeries dateParse engine st data ''Unknown'')"
  then show "truthy (objGet item (lineStateColumn st))"
    by (rule unknown_series_truthy [OF assms])
next
  assume "\<forall>row\<in>set data. toString (row (lineStateColumn st)) \<noteq> ''Unknown''"
  then show "subSeries dateParse engine st data ''Unknown'' = []"
    by (rule unknown_series_empty [OF assms])
next
  fix row state
  assume "state \<in> set (stateOptions st data)"
    and "\<not> truthy (row (lineStateColumn st)) \<and>
         lineItem st row \<in> set (subSeries dateParse engine st data state)"
  then show "\<exists>other\<in>set data. truthy (other (lineStateColumn st))
               \<and> toString (other (lineStateColumn st)) = toString (row (lineStateColumn st))"
    using falsy_row_series [OF assms] by blast
qed

lemma missingState_facts:
  "stateOptions allStates missingStateRows = [''CA'', ''Unknown'']"
  "list_ex (\<lambda>row. \<not> truthy (row ''state'')) missingStateRows"
  "list_all (\<lambda>row. toString (row ''state'') \<noteq> ''Unknown'') missingStateRows"
  "map (\<lambda>state. length (subSeries isoDateOnly insertionEngine allStates missingStateRows state))
     (stateOptions allStates missingStateRows) = [1, 0]"
  "length (lineChartData isoDateOnly insertionEngine allStates missingStateRows) = 3"
  by code_simp+

text \<open>
  Three rows, their grouping values missing, "CA" and empty: the options are "CA" and
  "Unknown", the "Unknown" sub-series is empty, and of the three charted rows only the
  one of "CA" is in a sub-series.
\<close>

theorem unknown_option_series_witness:
  "''Unknown'' \<in> set (stateOptions allStates missingStateRows)
   \<and> subSeries isoDateOnly insertionEngine allStates missingStateRows ''Unknown'' = []
   \<and> length (lineChartData isoDateOnly insertionEngine allStates missingStateRows) = 3
   \<and> map (\<lambda>state. length (subSeries isoDateOnly insertionEngine allStates missingStateRows state))
        (stateOptions allStates missingStateRows) = [1, 0]"
proof -
  have col: "lineStateColumn allStates \<noteq> []" "lineStateColumn allStates = ''state''"
    by (simp_all add: allStates_def)
  have falsy: "\<exists>row\<in>set missingStateRows. \<not> truthy (row (lineStateColumn allStates))"
    using missingState_facts(2) by (simp add: col(2) list_ex_iff)
  have none: "\<forall>row\<in>set missingStateRows. toString (row (lineStateColumn allStates)) \<noteq> ''Unknown''"
    using missingState_facts(3) by (simp add: col(2) list_all_iff)
  show ?thesis
    using unknown_option_series [OF col(1), of missingStateRows isoDateOnly insertionEngine] falsy none
      missingState_facts(4,5)
    by blast
qed

lemma literalUnknown_facts:
  "stateOptions allStates literalUnknownRows = [''Unknown'']"
  "subSeries isoDateOnly insertionEngine allStates literalUnknownRows ''Unknown''
   = [[(''date'', Str ''2023-01-02''), (''value'', Num (Fin 2)), (''state'', Str ''Unknown'')]]"
  "truthy (stateRow ''2023-01-01'' ''1'' Undefined ''state'') = False"
  by code_simp+

text \<open>
  C10 as stated fails when a row carries the text "Unknown" itself: a row's grouping
  value is missing, the option "Unknown" exists, and its sub-series is not empty.
\<close>

theorem unknown_series_counterexample:
  "literalUnknownRows
     = [stateRow ''2023-01-01'' ''1'' Undefined, stateRow ''2023-01-02'' ''2'' (Str ''Unknown'')]
   \<and> truthy (stateRow ''2023-01-01'' ''1'' Undefined ''state'') = False
   \<and> stateOptions allStates literalUnknownRows = [''Unknown'']
   \<and> subSeries isoDateOnly insertionEngine allStates literalUnknownRows ''Unknown''
       = [[(''date'', Str ''2023-01-02''), (''value'', Num (Fin 2)), (''state'', Str ''Unknown'')]]"
  using literalUnknown_facts by (simp add: literalUnknownRows_def)

subsection \<open>Line chart: series building\<close>

lemma jsLe_total: "\<not> isNaN a \<Longrightarrow> \<not> isNaN b \<Longrightarrow> \<not> jsLe a b \<Longrightarrow> jsLe b a"
  unfolding jsLe_def by (rule jsGe_total)

lemma jsLe_trans: "jsLe a b \<Longrightarrow> jsLe b c \<Longrightarrow> jsLe a c"
  unfolding jsLe_def using jsGe_trans by blast

text \<open>
  When every row has a valid key, the comparator \<open>key(a) - key(b)\<close> is consistent and the
  rows come out in ascending order of the key, in every engine.
\<close>

lemma sorted_by_key:
  fixes rows :: "row list"
  assumes valid: "allValid key rows"
  shows "ascendingBy key (arraySort engine (\<lambda>a b. jsSub (key a) (key b)) rows)"
  unfolding ascendingBy_def
proof (rule sorted_arraySort(2) [where le = "\<lambda>a b. jsLe (key a) (key b)"])
  fix a b assume "a \<in> set rows" "b \<in> set rows"
  then have nn: "\<not> isNaN (key a)" "\<not> isNaN (key b)"
    using valid by (simp_all add: allValid_def list_all_iff)
  show "compareSign (\<lambda>a b. jsSub (key a) (key b)) a b
        = (if \<not> jsLe (key a) (key b) then 1 else if \<not> jsLe (key b) (key a) then - 1 else 0)"
    using sign_sub [OF nn] by (simp add: compareSign_def sortCompare_def jsLe_def)
next
  fix a b assume "a \<in> set rows" "b \<in> set rows" and not: "\<not> jsLe (key a) (key b)"
  then have nn: "\<not> isNaN (key a)" "\<not> isNaN (key b)"
    using valid by (simp_all add: allValid_def list_all_iff)
  show "jsLe (key b) (key a)"
    using jsLe_total [OF nn not] .
next
  fix a b c :: row
  assume "jsLe (key a) (key b)" "jsLe (key b) (key c)"
  then show "jsLe (key a) (key c)" by (rule jsLe_trans)
qed

lemma byDate_key: "byDate dateParse column = (\<lambda>a b. jsSub (rowTime dateParse column a) (rowTime dateParse column b))"
  by (intro ext) (simp add: byDate_def rowTime_def)

lemma byNumber_key: "byNumber column = (\<lambda>a b. jsSub (rowNumber column a) (rowNumber column b))"
  by (intro ext) (simp add: byNumber_def rowNumber_def)

lemma sortedData_cases:
  "sortedData dateParse engine st data =
     (if list_ex (isDateRow dateParse (lineXAxis st)) data
      then arraySort engine (byDate dateParse (lineXAxis st)) data
      else if list_ex (numericRow (lineXAxis st)) data
      then arraySort engine (byNumber (lineXAxis st)) data
      else data)"
proof -
  have "numericRow (lineXAxis st) = (\<lambda>row. isNumeric (row (lineXAxis st)))"
    by (intro ext) (simp add: numericRow_def)
  then show ?thesis
    by (simp add: sortedData_def Let_def)
qed

lemma mset_sortedData: "mset (sortedData dateParse engine st data) = mset data"
  by (simp add: sortedData_cases)

lemma sortedData_by_date:
  assumes "list_ex (isDateRow dateParse (lineXAxis st)) data"
    and "allValid (rowTime dateParse (lineXAxis st)) data"
  shows "ascendingBy (rowTime dateParse (lineXAxis st)) (sortedData dateParse engine st data)"
  using assms(1) sorted_by_key [OF assms(2)]
  by (simp add: sortedData_cases byDate_key)

lemma sortedData_by_number:
  assumes "\<not> list_ex (isDateRow dateParse (lineXAxis st)) data"
    and "list_ex (numericRow (lineXAxis st)) data"
    and "allValid (rowNumber (lineXAxis st)) data"
  shows "ascendingBy (rowNumber (lineXAxis st)) (sortedData dateParse engine st data)"
  using assms(1,2) sorted_by_key [OF assms(3)]
  by (simp add: sortedData_cases byNumber_key)

lemma sortedData_unsorted:
  assumes "\<not> list_ex (isDateRow dateParse (lineXAxis st)) data"
    and "\<not> list_ex (numericRow (lineXAxis st)) data"
  shows "sortedData dateParse engine st data = data"
  using assms by (simp add: sortedData_cases)

lemma lineChartData_all:
  assumes "lineStateColumn st = [] \<or> showAllStates st \<or> lineSelectedState st = []"
  shows "lineChartData dateParse engine st data
         = take 100 (map (lineItem st) (filter (hasX st) (sortedData dateParse engine st data)))"
  using assms by (auto simp: lineChartData_def lineFilteredData_def)

lemma length_lineChartData: "length (lineChartData dateParse engine st data) \<le> 100"
  by (simp add: lineChartData_def)

lemma objGet_objSet_other: "k' \<noteq> k \<Longrightarrow> objGet (objSet obj k v) k' = objGet obj k'"
proof -
  assume neq: "k' \<noteq> k"
  have "map_of (map (\<lambda>(a, b). if a = k then (a, v) else (a, b)) obj) k' = map_of obj k'"
    for obj :: "jsval jsobj"
    using neq by (induction obj) auto
  then show ?thesis
    using neq by (auto simp: objGet_def objSet_def map_add_def split: option.splits)
qed

lemma lineItem_x:
  "lineXAxis st \<noteq> lineYAxis st \<Longrightarrow> objGet (lineItem st row) (lineXAxis st) = row (lineXAxis st)"
  by (cases "lineStateColumn st = lineXAxis st") (simp_all add: lineItem_def Let_def objGet_objSet_other)

lemma lineItem_y:
  "lineStateColumn st \<noteq> lineYAxis st \<Longrightarrow>
   objGet (lineItem st row) (lineYAxis st)
   = Num (if isNumeric (row (lineYAxis st)) then toNumber (row (lineYAxis st)) else Fin 0)"
  by (simp add: lineItem_def Let_def objGet_objSet_other)

lemma date_example:
  "list_ex (isDateRow isoDateOnly ''date'') swappedDateRows"
  "allValid (rowTime isoDateOnly ''date'') swappedDateRows"
  "lineXs dateValue (lineChartData isoDateOnly insertionEngine dateValue swappedDateRows)
   = [Str ''2023-01-01'', Str ''2023-01-02'']"
  "lineChartData isoDateOnly insertionEngine dateValue swappedDateRows
   = [[(''date'', Str ''2023-01-01''), (''value'', Num (Fin 0))],
      [(''date'', Str ''2023-01-02''), (''value'', Num (Fin 1))]]"
  by code_simp+

lemma number_example:
  "\<not> list_ex (isDateRow isoDateOnly ''date'') numberRows"
  "list_ex (numericRow ''date'') numberRows"
  "allValid (rowNumber ''date'') numberRows"
  "lineXs dateValue (lineChartData isoDateOnly insertionEngine dateValue numberRows)
   = [Str ''-1'', Str ''9'', Str ''10'']"
  by code_simp+

lemma text_example:
  "\<not> list_ex (isDateRow isoDateOnly ''date'') textRows"
  "\<not> list_ex (numericRow ''date'') textRows"
  "lineXs dateValue (lineChartData isoDateOnly insertionEngine dateValue textRows)
   = [Str ''b'', Str ''a'']"
  by code_simp+

lemma mixed_example:
  "list_ex (isDateRow isoDateOnly ''date'') mixedDateRows"
  "comparisons (byDate isoDateOnly ''date'') mixedDateRows
   = [[Fin 0, Fin 0, Fin 86400000], [Fin 0, Fin 0, Fin 0], [Fin (- 86400000), Fin 0, Fin 0]]"
  "consistentComparator (byDate isoDateOnly ''date'') mixedDateRows = False"
  "lineXs dateValue (lineChartData isoDateOnly insertionEngine dateValue mixedDateRows)
   = [Str ''2023-01-02'', Str '''', Str ''2023-01-01'']"
  "jsLt (isoDateOnly ''2023-01-01'') (isoDateOnly ''2023-01-02'')"
  by code_simp+

text \<open>
  On the rows dated 2023-01-02, nothing and 2023-01-01 the order is the engine's: the
  model takes whatever permutation the engine answers with.
\<close>

lemma mixed_order_is_the_engines:
  "sortedData isoDateOnly engine dateValue mixedDateRows =
     (let order = engine [[Fin 0, Fin 0, Fin 86400000], [Fin 0, Fin 0, Fin 0],
                          [Fin (- 86400000), Fin 0, Fin 0]]
      in if sort order = [0..<length mixedDateRows] then map (\<lambda>i. mixedDateRows ! i) order
         else mixedDateRows)"
proof -
  have "lineXAxis dateValue = ''date''"
    by (simp add: dateValue_def)
  then show ?thesis
    using mixed_example(1,2,3) by (simp add: sortedData_cases arraySort_def)
qed

text \<open>
  C4 fails on the code. The rows dated 2023-01-02 and 2023-01-01 alone come out in
  ascending order, as the specification says. With a row between them whose date is empty,
  one value still parses as a date, so the rows are sorted by date; but the comparator
  answers \<open>NaN\<close> against the row with no date, which the sort takes for "equal". The
  table of comparisons has 0 for both pairs of neighbours and is not consistent, and the
  order is the engine's. An engine that sorts by insertion finds every neighbour in place
  and returns the rows as they are: 2023-01-02 comes before 2023-01-01 in the series,
  although 2023-01-01 is the earlier date.
\<close>

theorem series_unsorted_beside_undated_row:
  "lineXs dateValue (lineChartData isoDateOnly insertionEngine dateValue swappedDateRows)
     = [Str ''2023-01-01'', Str ''2023-01-02'']
   \<and> list_ex (isDateRow isoDateOnly ''date'') mixedDateRows
   \<and> comparisons (byDate isoDateOnly ''date'') mixedDateRows
     = [[Fin 0, Fin 0, Fin 86400000], [Fin 0, Fin 0, Fin 0], [Fin (- 86400000), Fin 0, Fin 0]]
   \<and> consistentComparator (byDate isoDateOnly ''date'') mixedDateRows = False
   \<and> lineXs dateValue (lineChartData isoDateOnly insertionEngine dateValue mixedDateRows)
     = [Str ''2023-01-02'', Str '''', Str ''2023-01-01'']
   \<and> jsLt (isoDateOnly ''2023-01-01'') (isoDateOnly ''2023-01-02'')"
  using date_example(3) mixed_example by simp

subsection \<open>Hidden state and colours\<close>

lemma withoutFill_barItem:
  "withoutFill (barItem xAxis yAxis r item) = withoutFill (barItem xAxis yAxis r' item)"
  by (auto simp: barItem_def objSet_def withoutFill_def)

lemma map_enumerate_cong:
  "(\<And>i x. f i x = g i x) \<Longrightarrow> map (\<lambda>(i, x). f i x) (enumerate n xs) = map (\<lambda>(i, x). g i x) (enumerate n xs)"
  by (induction xs arbitrary: n) auto

lemma distinct_keyOrder: "distinct ks \<Longrightarrow> distinct (keyOrder ks)"
  by (auto simp: keyOrder_def)

lemma distinct_groupKeys [simp]: "distinct (groupKeys keyOf data)"
  by (simp add: groupKeys_def)

lemma names_objectValues_pie:
  "map itemName (objectValues (pieGroupedData st data))
   = keyOrder (groupKeys (rowKey (pieLabelColumn st)) (pieFilteredData st data))"
  by (simp add: pieGroupedData_eq objectValues_keyed comp_def)

lemma distinct_map_arraySort:
  "distinct (map f (arraySort engine cmp xs)) = distinct (map f xs)"
proof -
  have "mset (map f (arraySort engine cmp xs)) = mset (map f xs)"
    by simp
  then show ?thesis
    by (rule mset_eq_imp_distinct_iff)
qed

lemma distinct_names_pieChartData: "distinct (map itemName (pieChartData engine st data))"
proof -
  have "distinct (map itemName (objectValues (pieGroupedData st data)))"
    by (simp add: names_objectValues_pie distinct_keyOrder)
  then have "distinct (map itemName (filter (\<lambda>item. jsGt (itemValue item) (Fin 0))
               (objectValues (pieGroupedData st data))))"
    by (rule distinct_map_filter)
  then have "distinct (map itemName (arraySort engine (\<lambda>a b. jsSub (itemValue b) (itemValue a))
               (filter (\<lambda>item. jsGt (itemValue item) (Fin 0))
                  (objectValues (pieGroupedData st data)))))"
    by (simp add: distinct_map_arraySort)
  then show ?thesis
    by (simp add: pieChartData_def take_map [symmetric] distinct_take)
qed

lemma pieChartConfig_indexed:
  "distinct (map itemName items) \<Longrightarrow>
   pieChartConfig items =
     map (\<lambda>(index, item). (itemName item, \<lparr>label = itemName item, color = paletteSlot index\<rparr>))
       (enumerate 0 items)"
proof (induction items rule: rev_induct)
  case Nil
  show ?case by (simp add: pieChartConfig_def)
next
  case (snoc x xs)
  let ?entry = "\<lambda>(index, item). (itemName item, \<lparr>label = itemName item, color = paletteSlot index\<rparr>)"
  have IH: "pieChartConfig xs = map ?entry (enumerate 0 xs)"
    using snoc by simp
  have "map fst (map ?entry (enumerate n xs)) = map itemName xs" for n
    by (induction xs arbitrary: n) simp_all
  then have img: "fst ` set (map ?entry (enumerate 0 xs)) = itemName ` set xs"
    by (metis list.set_map)
  have notin: "itemName x \<notin> itemName ` set xs"
    using snoc.prems by auto
  have fresh: "map_of (map ?entry (enumerate 0 xs)) (itemName x) = None"
    unfolding map_of_eq_None_iff img by (rule notin)
  have "pieChartConfig (xs @ [x])
        = objSet (pieChartConfig xs) (itemName x)
            \<lparr>label = itemName x, color = paletteSlot (length xs)\<rparr>"
    by (simp add: pieChartConfig_def enumerate_append_eq paletteSlot_def)
  then show ?case
    by (simp add: IH objSet_def fresh enumerate_append_eq)
qed

lemma map_enumerate_index:
  "map (\<lambda>(i, x). f i) (enumerate n xs) = map f [n..<n + length xs]"
proof (induction xs arbitrary: n)
  case Nil
  show ?case by simp
next
  case (Cons x xs)
  have "[n..<n + length (x # xs)] = n # [Suc n..<n + length (x # xs)]"
    by (rule upt_conv_Cons) simp
  moreover have "n + length (x # xs) = Suc n + length xs"
    by simp
  ultimately have "map f [n..<n + length (x # xs)] = f n # map f [Suc n..<Suc n + length xs]"
    by (simp only: list.map)
  moreover have "map (\<lambda>(i, x). f i) (enumerate n (x # xs))
                 = f n # map (\<lambda>(i, x). f i) (enumerate (Suc n) xs)"
    by simp
  ultimately show ?case
    by (simp only: Cons.IH)
qed

lemma configColors_pie:
  "configColors (pieChartConfig (pieChartData engine st data))
   = map paletteSlot [0..<length (pieChartData engine st data)]"
proof -
  have "configColors (pieChartConfig (pieChartData engine st data))
        = map (\<lambda>(index, item). paletteSlot index) (enumerate 0 (pieChartData engine st data))"
    by (simp add: pieChartConfig_indexed [OF distinct_names_pieChartData] configColors_def
        comp_def case_prod_unfold)
  then show ?thesis
    by (simp only: map_enumerate_index add_0)
qed


lemma data_without_fill:
  "map_sum id (map withoutFill) (barChartData rnd data xAxis yAxis)
   = map_sum id (map withoutFill) (barChartData rnd' data xAxis yAxis)"
proof -
  have "map (\<lambda>(i, item). withoutFill (barItem xAxis yAxis (rnd i) item)) (enumerate 0 items)
        = map (\<lambda>(i, item). withoutFill (barItem xAxis yAxis (rnd' i) item)) (enumerate 0 items)"
    for items
    by (rule map_enumerate_cong) (rule withoutFill_barItem)
  moreover have "map withoutFill (barItems r xAxis yAxis groupedData)
        = take 20 (map (\<lambda>(i, item). withoutFill (barItem xAxis yAxis (r i) item))
                     (enumerate 0 (objectValues groupedData)))" for r groupedData
    by (simp add: barItems_def take_map [symmetric] comp_def case_prod_unfold)
  ultimately have "map withoutFill (barItems rnd xAxis yAxis groupedData)
             = map withoutFill (barItems rnd' xAxis yAxis groupedData)" for groupedData
    by (simp only:)
  then show ?thesis
    by (simp add: barChartData_def split: sum.splits prod.splits)
qed

text \<open>
  The reducers assign to nothing but their accumulator when no key names an inherited
  member.
\<close>

lemma barWritten_quiet:
  "\<forall>row\<in>set data. rowKey xAxis row \<notin> set objectPrototypeKeys \<Longrightarrow>
   barWritten data xAxis yAxis = Inr []"
  using barReduce_quiet [OF own_keys_quiet, of data xAxis yAxis]
  by (simp add: barWritten_def)

lemma pieWritten_quiet:
  "\<forall>row\<in>set (pieFilteredData st data). rowKey (pieLabelColumn st) row \<notin> set objectPrototypeKeys
   \<Longrightarrow> pieWritten st data = []"
  by (simp add: pieWritten_def pieLabelColumn_def rowKey_def Let_def filter_empty_conv)

text \<open>
  The line chart reads a row through the cells of the three selected columns only: its
  series is the same for two datasets that agree on them, whatever the engine.
\<close>

lemma sortInsert_map:
  assumes "\<And>a b. cmp a b = cmp' (f a) (f b)"
  shows "map f (sortInsert cmp x ys) = sortInsert cmp' (f x) (map f ys)"
  by (induction ys) (simp_all add: sortCompare_def assms)

lemma stableSort_map:
  assumes "\<And>a b. cmp a b = cmp' (f a) (f b)"
  shows "map f (stableSort cmp xs) = stableSort cmp' (map f xs)"
  using assms by (induction xs) (simp_all add: sortInsert_map [where cmp' = cmp' and f = f])

lemma comparisons_map:
  assumes "\<And>a b. cmp a b = cmp' (f a) (f b)"
  shows "comparisons cmp xs = comparisons cmp' (map f xs)"
  by (simp add: comparisons_def sortCompare_def assms comp_def)

lemma consistent_map:
  assumes "\<And>a b. cmp a b = cmp' (f a) (f b)"
  shows "consistentComparator cmp xs = consistentComparator cmp' (map f xs)"
  by (simp add: consistentComparator_def compareSign_def sortCompare_def assms list_all_iff)

lemma permuted_map:
  assumes "sort order = [0..<length xs]"
  shows "map f (map (\<lambda>i. xs ! i) order) = map (\<lambda>i. map f xs ! i) order"
proof -
  have "set order = set [0..<length xs]"
    using assms by (metis set_sort)
  then have "i < length xs" if "i \<in> set order" for i
    using that by simp
  then show ?thesis
    by simp
qed

lemma arraySort_map:
  assumes "\<And>a b. cmp a b = cmp' (f a) (f b)"
  shows "map f (arraySort engine cmp xs) = arraySort engine cmp' (map f xs)"
proof (cases "consistentComparator cmp xs")
  case True
  then show ?thesis
    using consistent_map [where cmp = cmp and cmp' = cmp' and f = f and xs = xs]
      stableSort_map [where cmp = cmp and cmp' = cmp' and f = f and xs = xs] assms
    by (simp add: arraySort_def)
next
  case False
  let ?order = "engine (comparisons cmp' (map f xs))"
  have table: "comparisons cmp xs = comparisons cmp' (map f xs)"
    using assms by (rule comparisons_map)
  have no: "\<not> consistentComparator cmp' (map f xs)"
    using False consistent_map [where cmp = cmp and cmp' = cmp' and f = f and xs = xs] assms
    by simp
  show ?thesis
  proof (cases "sort ?order = [0..<length xs]")
    case True
    then show ?thesis
      using False no table permuted_map [OF True, of f]
      by (simp add: arraySort_def Let_def)
  next
    case False
    then show ?thesis
      using \<open>\<not> consistentComparator cmp xs\<close> no table
      by (simp add: arraySort_def Let_def)
  qed
qed

lemma list_ex_cells:
  assumes "\<And>row. p row = q (f row)"
  shows "list_ex p rows = list_ex q (map f rows)"
  by (induction rows) (simp_all add: assms)

lemma map_filter_cells:
  assumes "\<And>row. g row = h (f row)" "\<And>row. p row = q (f row)"
  shows "map g (filter p rows) = map h (filter q (map f rows))"
  by (induction rows) (simp_all add: assms)

lemma sortedData_cells:
  assumes same: "map (lineCells st) data = map (lineCells st) data'"
  shows "map (lineCells st) (sortedData dateParse engine st data)
         = map (lineCells st) (sortedData dateParse engine st data')"
proof -
  let ?c = "lineCells st"
  let ?isDate = "\<lambda>u. truthy (fst u) \<and> \<not> isNaN (dateParse (toString (fst u)))"
  let ?isNum = "\<lambda>u. isNumeric (fst u)"
  let ?byDate = "\<lambda>u v. jsSub (dateTime dateParse (fst u)) (dateTime dateParse (fst v))"
  let ?byNumber = "\<lambda>u v. jsSub (toNumber (fst u)) (toNumber (fst v))"
  have isDate: "list_ex (isDateRow dateParse (lineXAxis st)) rows = list_ex ?isDate (map ?c rows)"
    for rows
    by (rule list_ex_cells) (simp add: isDateRow_def lineCells_def Let_def)
  have isNum: "list_ex (numericRow (lineXAxis st)) rows = list_ex ?isNum (map ?c rows)" for rows
    by (rule list_ex_cells) (simp add: numericRow_def lineCells_def)
  have byDate: "map ?c (arraySort engine (byDate dateParse (lineXAxis st)) rows)
                = arraySort engine ?byDate (map ?c rows)" for rows
    by (rule arraySort_map) (simp add: byDate_def lineCells_def)
  have byNumber: "map ?c (arraySort engine (byNumber (lineXAxis st)) rows)
                  = arraySort engine ?byNumber (map ?c rows)" for rows
    by (rule arraySort_map) (simp add: byNumber_def lineCells_def)
  have "map ?c (sortedData dateParse engine st rows) =
          (if list_ex ?isDate (map ?c rows) then arraySort engine ?byDate (map ?c rows)
           else if list_ex ?isNum (map ?c rows) then arraySort engine ?byNumber (map ?c rows)
           else map ?c rows)" for rows
    using isDate [of rows] isNum [of rows] byDate [of rows] byNumber [of rows]
    by (simp add: sortedData_cases)
  then show ?thesis
    by (simp only: same)
qed

lemma lineChartData_cells:
  assumes same: "map (lineCells st) data = map (lineCells st) data'"
  shows "lineChartData dateParse engine st data = lineChartData dateParse engine st data'"
proof -
  let ?c = "lineCells st"
  let ?item = "\<lambda>u. (let item = objSet (objSet [] (lineXAxis st) (fst u)) (lineYAxis st)
                                  (Num (if isNumeric (fst (snd u)) then toNumber (fst (snd u))
                                        else Fin 0))
                      in if lineStateColumn st \<noteq> [] then objSet item (lineStateColumn st) (snd (snd u))
                         else item)"
  let ?keep = "\<lambda>u. (lineStateColumn st \<noteq> [] \<and> \<not> showAllStates st \<and> lineSelectedState st \<noteq> []
                      \<longrightarrow> toString (snd (snd u)) = lineSelectedState st)
                    \<and> fst u \<noteq> Undefined \<and> fst u \<noteq> Null"
  let ?kept = "\<lambda>row. (lineStateColumn st \<noteq> [] \<and> \<not> showAllStates st \<and> lineSelectedState st \<noteq> []
                      \<longrightarrow> toString (row (lineStateColumn st)) = lineSelectedState st)
                    \<and> hasX st row"
  have series: "lineChartData dateParse engine st rows
                = take 100 (map (lineItem st) (filter ?kept (sortedData dateParse engine st rows)))"
    for rows
    by (auto simp: lineChartData_def lineFilteredData_def intro: filter_cong)
  have cells: "map (lineItem st) (filter ?kept rows) = map ?item (filter ?keep (map ?c rows))"
    for rows
    by (rule map_filter_cells) (simp_all add: lineItem_def lineCells_def hasX_def Let_def)
  show ?thesis
    unfolding series cells
    by (simp only: sortedData_cells [OF same])
qed

text \<open>
  The comparator of the pie chart is consistent on the items it sorts, whose values are
  above 0: the pie data is the same in every engine.
\<close>

lemma pie_sort_stable:
  fixes items :: "pieItem list"
  assumes "\<And>item. item \<in> set items \<Longrightarrow> jsGt (itemValue item) (Fin 0)"
  shows "arraySort engine (\<lambda>a b. jsSub (itemValue b) (itemValue a)) items
         = stableSort (\<lambda>a b. jsSub (itemValue b) (itemValue a)) items"
proof (rule sorted_arraySort(1) [where le = "\<lambda>a b. jsGe (itemValue a) (itemValue b)"])
  fix a b assume ab: "a \<in> set items" "b \<in> set items"
  then have nn: "\<not> isNaN (itemValue a)" "\<not> isNaN (itemValue b)"
    using assms positive_not_NaN by blast+
  show "compareSign (\<lambda>a b. jsSub (itemValue b) (itemValue a)) a b
        = (if \<not> jsGe (itemValue a) (itemValue b) then 1
           else if \<not> jsGe (itemValue b) (itemValue a) then - 1 else 0)"
    using sign_sub [OF nn(2) nn(1)] by (simp add: compareSign_def sortCompare_def)
next
  fix a b assume ab: "a \<in> set items" "b \<in> set items"
    and not: "\<not> jsGe (itemValue a) (itemValue b)"
  from ab have nn: "\<not> isNaN (itemValue a)" "\<not> isNaN (itemValue b)"
    using assms positive_not_NaN by blast+
  show "jsGe (itemValue b) (itemValue a)"
    using jsGe_total [OF nn not] .
next
  fix a b c :: pieItem
  assume "jsGe (itemValue a) (itemValue b)" "jsGe (itemValue b) (itemValue c)"
  then show "jsGe (itemValue a) (itemValue c)" by (rule jsGe_trans)
qed

lemma pieChartData_any_engine: "pieChartData engine st data = pieChartData engine' st data"
proof -
  let ?kept = "filter (\<lambda>item. jsGt (itemValue item) (Fin 0)) (objectValues (pieGroupedData st data))"
  have "arraySort e (\<lambda>a b. jsSub (itemValue b) (itemValue a)) ?kept
        = stableSort (\<lambda>a b. jsSub (itemValue b) (itemValue a)) ?kept" for e
    by (rule pie_sort_stable) simp
  then show ?thesis
    by (simp add: pieChartData_def)
qed

lemma palette_size: "length COLORS = 8"
  by (simp add: COLORS_def)

text \<open>
  C8 (as the code has it). Every derived structure but the colour of a bar is a function
  of the dataset and the selection (and, for the line chart, of \<open>Date.parse\<close> and the
  engine's sort, which are not state), on the datasets where no group key names an
  inherited member:
  \<^item> the bar chart's data with the \<open>fill\<close> of each bar removed is the same whatever
    \<open>Math.random\<close> returns, on every dataset;
  \<^item> on those datasets the reducers of the bar and the pie chart assign to no built-in
    object, so they leave no state behind for a later computation;
  \<^item> the pie chart's data is the same in every engine, and the colour of its \<open>i\<close>-th
    slice is the palette slot \<open>i mod 8\<close>;
  \<^item> the line series is the same for two datasets that agree on the cells of the
    selected columns.
  What the reducers assign when a key does name an inherited member is left out here.
\<close>

theorem derived_data_purity:
  "map_sum id (map withoutFill) (barChartData rnd data xAxis yAxis)
     = map_sum id (map withoutFill) (barChartData rnd' data xAxis yAxis)
   \<and> ((\<forall>row\<in>set data. rowKey xAxis row \<notin> set objectPrototypeKeys) \<longrightarrow>
        barWritten data xAxis yAxis = Inr [])
   \<and> ((\<forall>row\<in>set (pieFilteredData st data).
          rowKey (pieLabelColumn st) row \<notin> set objectPrototypeKeys) \<longrightarrow>
        pieWritten st data = [])
   \<and> pieChartData engine st data = pieChartData engine' st data
   \<and> configColors (pieChartConfig (pieChartData engine st data))
     = map paletteSlot [0..<length (pieChartData engine st data)]
   \<and> paletteSlot index = COLORS ! (index mod 8)
   \<and> (map (lineCells lineSt) data = map (lineCells lineSt) data' \<longrightarrow>
        lineChartData dateParse engine lineSt data = lineChartData dateParse engine lineSt data')"
  using data_without_fill [of rnd data xAxis yAxis rnd'] barWritten_quiet [of data xAxis yAxis]
    pieWritten_quiet [of st data] configColors_pie [of engine st data]
    lineChartData_cells [of lineSt data data' dateParse engine] palette_size
    pieChartData_any_engine [of engine st data engine']
  by (simp add: paletteSlot_def)

lemma purity_examples:
  "list_all (\<lambda>row. rowKey ''category'' row \<notin> set objectPrototypeKeys) exampleRows"
  "list_all (\<lambda>row. rowKey (pieLabelColumn categoryAmount) row \<notin> set objectPrototypeKeys)
     (pieFilteredData categoryAmount exampleRows)"
  "map (lineCells dateValue) swappedDateRows = map (lineCells dateValue) notedDateRows"
  "lineChartData isoDateOnly insertionEngine dateValue swappedDateRows
   = [[(''date'', Str ''2023-01-01''), (''value'', Num (Fin 0))],
      [(''date'', Str ''2023-01-02''), (''value'', Num (Fin 1))]]"
  "map paletteSlot [0..<length (pieChartData insertionEngine categoryAmount exampleRows)]
   = [''hsl(var(--chart-1))'', ''hsl(var(--chart-2))'']"
  by code_simp+

text \<open>
  On the dataset A/10, B/20, A/5 the reducers assign to no built-in object and the two
  pie slices get the first two palette slots; the dated rows give the same series with
  and without a further column.
\<close>

theorem derived_data_purity_witness:
  "barWritten exampleRows ''category'' ''amount'' = Inr []
   \<and> pieWritten categoryAmount exampleRows = []
   \<and> configColors (pieChartConfig (pieChartData insertionEngine categoryAmount exampleRows))
     = [''hsl(var(--chart-1))'', ''hsl(var(--chart-2))'']
   \<and> lineChartData isoDateOnly insertionEngine dateValue notedDateRows
     = [[(''date'', Str ''2023-01-01''), (''value'', Num (Fin 0))],
        [(''date'', Str ''2023-01-02''), (''value'', Num (Fin 1))]]"
proof -
  have own: "\<forall>row\<in>set exampleRows. rowKey ''category'' row \<notin> set objectPrototypeKeys"
    using purity_examples(1) by (simp add: list_all_iff)
  have pie: "\<forall>row\<in>set (pieFilteredData categoryAmount exampleRows).
               rowKey (pieLabelColumn categoryAmount) row \<notin> set objectPrototypeKeys"
    using purity_examples(2) by (simp add: list_all_iff)
  show ?thesis
    using derived_data_purity [where data = exampleRows and xAxis = "''category''"
        and yAxis = "''amount''" and st = categoryAmount and engine = insertionEngine
        and rnd = zeroRandom and rnd' = zeroRandom and lineSt = dateValue
        and data' = exampleRows and dateParse = isoDateOnly]
      derived_data_purity [where data = swappedDateRows and data' = notedDateRows
        and lineSt = dateValue and dateParse = isoDateOnly and engine = insertionEngine
        and st = categoryAmount and xAxis = "''category''" and yAxis = "''amount''"
        and rnd = zeroRandom and rnd' = zeroRandom]
      own pie purity_examples(3-5)
    by simp
qed

lemma random_fills:
  "barChartData zeroRandom exampleRows ''category'' ''amount''
   = Inr [[(''category'', Str ''A''), (''amount'', Num (Fin 15)), (''fill'', Str ''hsl(var(--chart-1))'')],
          [(''category'', Str ''B''), (''amount'', Num (Fin 20)), (''fill'', Str ''hsl(var(--chart-1))'')]]"
  "barChartData halfRandom exampleRows ''category'' ''amount''
   = Inr [[(''category'', Str ''A''), (''amount'', Num (Fin 15)), (''fill'', Str ''hsl(var(--chart-3))'')],
          [(''category'', Str ''B''), (''amount'', Num (Fin 20)), (''fill'', Str ''hsl(var(--chart-3))'')]]"
  by code_simp+

text \<open>
  C8 as stated fails for the bar chart: on the same dataset and selection, two runs in
  which \<open>Math.random\<close> returns 0 and 0.5 give the bars different colours.
\<close>

theorem bar_fill_counterexample:
  "barChartData zeroRandom exampleRows ''category'' ''amount''
   \<noteq> barChartData halfRandom exampleRows ''category'' ''amount''"
  by (simp add: random_fills)

end
